theory Spec2Isabelle
  imports Main
begin

section \<open>Python values of the service\<close>

text \<open>
  The handlers of \<^verbatim>\<open>zai_service.py\<close> move JSON-like data around: configuration
  mappings (\<^verbatim>\<open>Dict[str, Any]\<close>), tool inputs, and the values the SDK hands back.
  A float is kept as a decimal literal \<open>PFloat m e\<close> (the number \<open>m * 10^e\<close>); the
  service never computes with floats, it only passes them on. A dict is an association
  list read with \<open>map_of\<close>, so that the key order that \<^verbatim>\<open>json.dumps\<close> prints is kept.
  Strings are lists of characters; \<^verbatim>\<open>len\<close> of a string is the length of the list.
\<close>

datatype pyval =
    PNone
  | PBool bool
  | PInt int
  | PFloat int int
  | PStr string
  | PList "pyval list"
  | PDict "(string \<times> pyval) list"

type_synonym pydict = "(string \<times> pyval) list"

text \<open>An exception instance: its class name and the text \<^verbatim>\<open>str(e)\<close> gives.
  Only instances of \<^verbatim>\<open>Exception\<close> are meant, the ones \<^verbatim>\<open>except Exception\<close> catches.\<close>

datatype exn = Exception string string

fun str_exn :: "exn \<Rightarrow> string" where
  "str_exn (Exception c m) = m"

text \<open>Truth value of a Python value, as \<^verbatim>\<open>if v:\<close> and \<^verbatim>\<open>and\<close>/\<^verbatim>\<open>or\<close> test it.\<close>

fun truthy :: "pyval \<Rightarrow> bool" where
  "truthy PNone = False"
| "truthy (PBool b) = b"
| "truthy (PInt i) = (i \<noteq> 0)"
| "truthy (PFloat m e) = (m \<noteq> 0)"
| "truthy (PStr s) = (s \<noteq> [])"
| "truthy (PList xs) = (xs \<noteq> [])"
| "truthy (PDict d) = (d \<noteq> [])"

fun type_name :: "pyval \<Rightarrow> string" where
  "type_name PNone = ''NoneType''"
| "type_name (PBool b) = ''bool''"
| "type_name (PInt i) = ''int''"
| "type_name (PFloat m e) = ''float''"
| "type_name (PStr s) = ''str''"
| "type_name (PList xs) = ''list''"
| "type_name (PDict d) = ''dict''"

text \<open>\<^verbatim>\<open>d.get(k, default)\<close> on a dict.\<close>

definition dict_get :: "pydict \<Rightarrow> string \<Rightarrow> pyval \<Rightarrow> pyval" where
  "dict_get d k dflt = (case map_of d k of None \<Rightarrow> dflt | Some v \<Rightarrow> v)"

definition no_attribute :: "string \<Rightarrow> string \<Rightarrow> exn" where
  "no_attribute ty a =
     Exception ''AttributeError''
       ([CHR 0x27] @ ty @ [CHR 0x27] @ '' object has no attribute '' @ [CHR 0x27] @ a @ [CHR 0x27])"

text \<open>\<^verbatim>\<open>v.get(k, default)\<close> on a value that need not be a dict: every other kind of
  value of this model has no method \<^verbatim>\<open>get\<close>, and the call raises AttributeError.\<close>

definition method_get :: "pyval \<Rightarrow> string \<Rightarrow> pyval \<Rightarrow> exn + pyval" where
  "method_get v k dflt =
     (case v of PDict d \<Rightarrow> Inr (dict_get d k dflt)
      | _ \<Rightarrow> Inl (no_attribute (type_name v) ''get''))"

text \<open>\<^verbatim>\<open>len(v)\<close>: defined on strings, lists and dicts, TypeError on the rest.\<close>

definition py_len :: "pyval \<Rightarrow> exn + pyval" where
  "py_len v =
     (case v of
        PStr s \<Rightarrow> Inr (PInt (int (length s)))
      | PList xs \<Rightarrow> Inr (PInt (int (length xs)))
      | PDict d \<Rightarrow> Inr (PInt (int (length d)))
      | _ \<Rightarrow> Inl (Exception ''TypeError''
                 (''object of type '' @ [CHR 0x27] @ type_name v @ [CHR 0x27] @ '' has no len()'')))"

text \<open>An object the SDK returns (a response, a streamed chunk): its class name, its
  attributes, and the text \<^verbatim>\<open>str(obj)\<close> gives.\<close>

record pyobj =
  cls :: string
  attrs :: pydict
  text_of :: string

definition hasattr :: "pyobj \<Rightarrow> string \<Rightarrow> bool" where
  "hasattr ob a = (map_of (attrs ob) a \<noteq> None)"

text \<open>\<^verbatim>\<open>ob.a\<close>: AttributeError when the attribute is missing.\<close>

definition getattr :: "pyobj \<Rightarrow> string \<Rightarrow> exn + pyval" where
  "getattr ob a =
     (case map_of (attrs ob) a of None \<Rightarrow> Inl (no_attribute (cls ob) a) | Some v \<Rightarrow> Inr v)"

text \<open>\<^verbatim>\<open>getattr(ob, a, default)\<close>.\<close>

definition getattr_default :: "pyobj \<Rightarrow> string \<Rightarrow> pyval \<Rightarrow> pyval" where
  "getattr_default ob a dflt = dict_get (attrs ob) a dflt"

section \<open>The Pydantic models of the API\<close>

text \<open>
  Field names follow the source; where two models share a field name the second one is
  prefixed (\<open>resp_content\<close> is \<^verbatim>\<open>ChatResponse.content\<close>, \<open>req_toolName\<close> is
  \<^verbatim>\<open>ToolExecutionRequest.toolName\<close>, \<open>msg_timestamp\<close> is \<^verbatim>\<open>ChatMessage.timestamp\<close>).
  The fields that the handlers fill with whatever the SDK returned have type
  \<open>pyval\<close>; Pydantic's own validation of field types is not part of this model.
\<close>

record ChatMessage =
  role :: string
  content :: string
  msg_timestamp :: "pyval option"

record ChatRequest =
  messages :: "ChatMessage list"
  config :: pydict

record ChatResponse =
  resp_content :: pyval
  thinking :: pyval
  model :: pyval
  usage :: pyval

record ToolExecutionRequest =
  req_toolName :: string
  input :: pydict
  tool_context :: "pydict option"

record ToolExecutionResponse =
  success :: bool
  toolName :: string
  result :: "pyval option"
  error :: "string option"
  timestamp :: pyval

text \<open>The dict \<^verbatim>\<open>{"role": msg.role, "content": msg.content}\<close> that both chat handlers
  build for every message: exactly these two keys, both strings.\<close>

record msg =
  m_role :: string
  m_content :: string

definition msg_of :: "ChatMessage \<Rightarrow> msg" where
  "msg_of m = \<lparr>m_role = role m, m_content = content m\<rparr>"

text \<open>\<^verbatim>\<open>HTTPException(status_code, detail)\<close>.\<close>

datatype http_error = HTTPException nat string

section \<open>The outside world: the SDK, the clock, Python's library\<close>

text \<open>
  A client instance is identified by a number. The calls the service makes on the SDK
  are recorded, with their arguments in the order of the source's keyword arguments:
  \<^item> \<open>Simple_chat client message model enable_thinking temperature top_p max_tokens\<close>
    (the last two are \<open>None\<close> when the call does not pass them);
  \<^item> \<open>Create_chat client title models initial_message enable_thinking\<close>;
  \<^item> \<open>Complete_chat client chat_id messages model enable_thinking temperature top_p max_tokens\<close>;
  \<^item> \<open>Stream_completion\<close> with the arguments of \<open>Complete_chat\<close>.
\<close>

datatype client = Client nat

datatype call =
    Simple_chat client pyval pyval pyval pyval "pyval option" "pyval option"
  | Create_chat client string "pyval list" pyval pyval
  | Complete_chat client pyval "msg list" pyval pyval pyval pyval pyval
  | Stream_completion client pyval "msg list" pyval pyval pyval pyval pyval

text \<open>One \<^verbatim>\<open>next()\<close> on the iterator that \<^verbatim>\<open>stream_completion\<close> returns.\<close>

datatype pull = Yield pyobj | Stop | Raise exn

text \<open>
  Everything the handlers call and this repository does not define is a field of
  \<open>world\<close>:
  \<^item> \<open>new_client k\<close>: what evaluating
    \<^verbatim>\<open>ZAIClient(auto_auth=True, verbose=..., timeout=...)\<close> does the \<open>k\<close>-th time it is
    evaluated in the process (reading the environment variables included): it raises or
    returns an instance;
  \<^item> \<open>simple_chat\<close>, \<open>create_chat\<close>, \<open>complete_chat\<close>, \<open>stream_completion\<close>: what the
    SDK does on a call; \<open>stream_completion\<close> returns an iterator, given by the result of
    its \<open>k\<close>-th \<^verbatim>\<open>next()\<close>;
  \<^item> \<open>presets\<close>: the table of named presets of the SDK's \<^verbatim>\<open>custom_models\<close>;
    \<open>list_presets\<close>: what \<^verbatim>\<open>list_presets()\<close> returns;
  \<^item> \<open>py_str\<close>: Python's \<^verbatim>\<open>str\<close> on a value that is not a string;
    \<open>json_dumps indent\<close>: \<^verbatim>\<open>json.dumps(v)\<close>, \<^verbatim>\<open>json.dumps(v, indent=n)\<close>;
  \<^item> \<open>loop_time k\<close>: the \<open>k\<close>-th reading of \<^verbatim>\<open>asyncio.get_event_loop().time()\<close>.

  Every value of \<open>pyval\<close> can be serialised, so \<open>json_dumps\<close> returns a string and
  does not raise.
\<close>

record world =
  new_client :: "nat \<Rightarrow> exn + client"
  simple_chat :: "call \<Rightarrow> exn + pyobj"
  create_chat :: "call \<Rightarrow> exn + pyval"
  complete_chat :: "call \<Rightarrow> exn + pyobj"
  stream_completion :: "call \<Rightarrow> exn + (nat \<Rightarrow> pull)"
  presets :: "string \<Rightarrow> pydict option"
  list_presets :: "exn + pyval"
  py_str :: "pyval \<Rightarrow> string"
  json_dumps :: "nat option \<Rightarrow> pyval \<Rightarrow> string"
  loop_time :: "nat \<Rightarrow> pyval"

text \<open>
  The state of the process: the module-level \<^verbatim>\<open>zai_client\<close>, and three records of
  what the process has done so far: how often the constructor has been evaluated,
  the calls made on the SDK in order, and how often the clock has been read.
\<close>

record state =
  zai_client :: "client option"
  ctor_calls :: nat
  log :: "call list"
  time_reads :: nat

definition initial_state :: state where
  "initial_state = \<lparr>zai_client = None, ctor_calls = 0, log = [], time_reads = 0\<rparr>"

definition log_call :: "call \<Rightarrow> state \<Rightarrow> state" where
  "log_call c s = s\<lparr>log := log s @ [c]\<rparr>"

definition read_time :: "world \<Rightarrow> state \<Rightarrow> pyval \<times> state" where
  "read_time w s = (loop_time w (time_reads s), s\<lparr>time_reads := Suc (time_reads s)\<rparr>)"

text \<open>A value inside an f-string: a string as it is, anything else through \<^verbatim>\<open>str\<close>.\<close>

definition fmt :: "world \<Rightarrow> pyval \<Rightarrow> string" where
  "fmt w v = (case v of PStr s \<Rightarrow> s | _ \<Rightarrow> py_str w v)"

definition NL :: string where
  "NL = [CHR 0x0A]"

section \<open>The client accessor, startup and the health probe\<close>

text \<open>
  \<^verbatim>\<open>get_zai_client\<close>: when the global is \<^verbatim>\<open>None\<close> the constructor is evaluated; an
  exception is re-raised and leaves the global \<^verbatim>\<open>None\<close>.
\<close>

definition get_zai_client :: "world \<Rightarrow> state \<Rightarrow> (exn + client) \<times> state" where
  "get_zai_client w s =
     (case zai_client s of
        Some c \<Rightarrow> (Inr c, s)
      | None \<Rightarrow>
          (case new_client w (ctor_calls s) of
             Inl e \<Rightarrow> (Inl e, s\<lparr>ctor_calls := Suc (ctor_calls s)\<rparr>)
           | Inr c \<Rightarrow> (Inr c, s\<lparr>zai_client := Some c, ctor_calls := Suc (ctor_calls s)\<rparr>)))"

text \<open>\<^verbatim>\<open>startup_event\<close>: calls the accessor and swallows its exception.\<close>

definition startup_event :: "world \<Rightarrow> state \<Rightarrow> state" where
  "startup_event w s = snd (get_zai_client w s)"

text \<open>
  \<^verbatim>\<open>health_check\<close>. The accessor returns an instance or raises, so in the first branch
  \<^verbatim>\<open>client is not None\<close> is \<^verbatim>\<open>True\<close>.
\<close>

definition health_check :: "world \<Rightarrow> state \<Rightarrow> pyval \<times> state" where
  "health_check w s =
     (case get_zai_client w s of
        (Inr client, s1) \<Rightarrow>
          (let (t, s2) = read_time w s1
           in (PDict [(''status'', PStr ''healthy''),
                      (''timestamp'', t),
                      (''pythonSDK'', PStr ''web-ui-python-sdk''),
                      (''client_ready'', PBool True)], s2))
      | (Inl e, s1) \<Rightarrow>
          (let (t, s2) = read_time w s1
           in (PDict [(''status'', PStr ''unhealthy''),
                      (''error'', PStr (str_exn e)),
                      (''timestamp'', t)], s2)))"

text \<open>\<^verbatim>\<open>list_tools\<close>: a static list; \<^verbatim>\<open>list_presets\<close> was imported, so it is in
  \<^verbatim>\<open>globals()\<close>. The handler has no \<^verbatim>\<open>try\<close>: an exception of \<^verbatim>\<open>list_presets()\<close>
  leaves it.\<close>

definition tools :: "string list" where
  "tools = [''analyzeRepositoryStructure'', ''searchRepositoryFiles'', ''getRepositoryInfo'',
            ''analyzCodeWithLynlang'', ''compareCodePatterns'', ''analyzePageContext'',
            ''extractPageContent'', ''pythonAnalyzeRepository'', ''pythonCodeReview'']"

definition list_tools :: "world \<Rightarrow> exn + pyval" where
  "list_tools w =
     (case list_presets w of
        Inl e \<Rightarrow> Inl e
      | Inr ps \<Rightarrow> Inr (PDict [(''tools'', PList (map PStr tools)),
                             (''count'', PInt (int (length tools))),
                             (''presets'', ps)]))"

section \<open>Chat: request normalisation\<close>

text \<open>
  Modelled from the spec: \<^verbatim>\<open>get_preset\<close> of the SDK module \<^verbatim>\<open>custom_models\<close> is
  imported by \<^verbatim>\<open>zai_service.py\<close> and is not among the sources. The spec's Preset
  Resolver: "given a preset name, returns a parameter-override mapping or not found;
  resolution never raises for unknown names". Not found is \<^verbatim>\<open>None\<close>; the table of
  presets is the parameter \<open>presets\<close> of the world.
\<close>

definition get_preset :: "world \<Rightarrow> pyval \<Rightarrow> pyval" where
  "get_preset w name =
     (case name of
        PStr n \<Rightarrow> (case presets w n of None \<Rightarrow> PNone | Some d \<Rightarrow> PDict d)
      | _ \<Rightarrow> PNone)"

text \<open>The five local variables \<^verbatim>\<open>model\<close>, \<^verbatim>\<open>enable_thinking\<close>, \<^verbatim>\<open>temperature\<close>,
  \<^verbatim>\<open>top_p\<close>, \<^verbatim>\<open>max_tokens\<close> of the two chat handlers.\<close>

record params =
  p_model :: pyval
  enable_thinking :: pyval
  temperature :: pyval
  top_p :: pyval
  max_tokens :: pyval

text \<open>"Extract configuration": lines 148--153 of \<^verbatim>\<open>chat_completion\<close>, and the same
  text at lines 216--221 of \<^verbatim>\<open>chat_stream\<close>.\<close>

definition extract_config :: "pydict \<Rightarrow> params" where
  "extract_config cfg =
     \<lparr>p_model = dict_get cfg ''model'' (PStr ''glm-4.5v''),
      enable_thinking = dict_get cfg ''enableThinking'' (PBool True),
      temperature = dict_get cfg ''temperature'' (PFloat 7 (- 1)),
      top_p = dict_get cfg ''topP'' (PFloat 9 (- 1)),
      max_tokens = dict_get cfg ''maxTokens'' (PInt 2000)\<rparr>"

text \<open>"Get preset if specified": lines 155--162 of \<^verbatim>\<open>chat_completion\<close>.
  \<^verbatim>\<open>get_preset\<close> was imported, so \<^verbatim>\<open>'get_preset' in globals()\<close> is true.\<close>

definition apply_preset :: "world \<Rightarrow> pydict \<Rightarrow> params \<Rightarrow> exn + params" where
  "apply_preset w cfg p =
     (let preset_name = dict_get cfg ''preset'' PNone in
      if truthy preset_name then
        (let preset = get_preset w preset_name in
         if truthy preset then
           (case method_get preset ''temperature'' (temperature p) of
              Inl e \<Rightarrow> Inl e
            | Inr t \<Rightarrow>
                (case method_get preset ''top_p'' (top_p p) of
                   Inl e \<Rightarrow> Inl e
                 | Inr tp \<Rightarrow>
                     (case method_get preset ''max_tokens'' (max_tokens p) of
                        Inl e \<Rightarrow> Inl e
                      | Inr mt \<Rightarrow> Inr (p\<lparr>temperature := t, top_p := tp, max_tokens := mt\<rparr>))))
         else Inr p)
      else Inr p)"

text \<open>\<^verbatim>\<open>messages[0]["content"] if messages else "Hello"\<close>.\<close>

definition initial_message :: "msg list \<Rightarrow> pyval" where
  "initial_message ms = (if ms \<noteq> [] then PStr (m_content (hd ms)) else PStr ''Hello'')"

text \<open>The \<^verbatim>\<open>ChatResponse(...)\<close> at the end of \<^verbatim>\<open>chat_completion\<close>: \<^verbatim>\<open>response.content\<close>
  raises when the attribute is missing, the two \<^verbatim>\<open>getattr\<close> have a default.\<close>

definition make_ChatResponse :: "pyobj \<Rightarrow> pyval \<Rightarrow> exn + ChatResponse" where
  "make_ChatResponse response mdl =
     (case getattr response ''content'' of
        Inl e \<Rightarrow> Inl e
      | Inr c \<Rightarrow> Inr \<lparr>resp_content = c,
                      thinking = getattr_default response ''thinking'' PNone,
                      model = mdl,
                      usage = getattr_default response ''usage'' PNone\<rparr>)"

text \<open>The \<^verbatim>\<open>try\<close> block of \<^verbatim>\<open>chat_completion\<close> after the accessor has returned
  \<open>client\<close>.\<close>

definition chat_completion_body ::
  "world \<Rightarrow> client \<Rightarrow> ChatRequest \<Rightarrow> state \<Rightarrow> (exn + ChatResponse) \<times> state" where
  "chat_completion_body w client request s =
     (let msgs = map msg_of (messages request) in
      case apply_preset w (config request) (extract_config (config request)) of
        Inl e \<Rightarrow> (Inl e, s)
      | Inr p \<Rightarrow>
          if length msgs = 1 \<and> m_role (hd msgs) = ''user'' then
            (let c = Simple_chat client (PStr (m_content (hd msgs))) (p_model p)
                       (enable_thinking p) (temperature p) (Some (top_p p)) (Some (max_tokens p));
                 s1 = log_call c s
             in case simple_chat w c of
                  Inl e \<Rightarrow> (Inl e, s1)
                | Inr response \<Rightarrow> (make_ChatResponse response (p_model p), s1))
          else
            (let c1 = Create_chat client ''API Chat Session'' [p_model p]
                        (initial_message msgs) (enable_thinking p);
                 s1 = log_call c1 s
             in case create_chat w c1 of
                  Inl e \<Rightarrow> (Inl e, s1)
                | Inr chat \<Rightarrow>
                    (case (if truthy chat then method_get chat ''id'' PNone else Inr PNone) of
                       Inl e \<Rightarrow> (Inl e, s1)
                     | Inr chat_id \<Rightarrow>
                         (let c2 = Complete_chat client chat_id msgs (p_model p)
                                     (enable_thinking p) (temperature p) (top_p p) (max_tokens p);
                              s2 = log_call c2 s1
                          in case complete_chat w c2 of
                               Inl e \<Rightarrow> (Inl e, s2)
                             | Inr response \<Rightarrow> (make_ChatResponse response (p_model p), s2)))))"

text \<open>\<^verbatim>\<open>chat_completion\<close>: every exception of the \<^verbatim>\<open>try\<close> block, the accessor's
  included, becomes an \<^verbatim>\<open>HTTPException\<close> with status 500.\<close>

definition chat_completion ::
  "world \<Rightarrow> ChatRequest \<Rightarrow> state \<Rightarrow> (http_error + ChatResponse) \<times> state" where
  "chat_completion w request s =
     (case get_zai_client w s of
        (Inl e, s1) \<Rightarrow> (Inl (HTTPException 500 (''Chat completion failed: '' @ str_exn e)), s1)
      | (Inr client, s1) \<Rightarrow>
          (case chat_completion_body w client request s1 of
             (Inl e, s2) \<Rightarrow>
               (Inl (HTTPException 500 (''Chat completion failed: '' @ str_exn e)), s2)
           | (Inr r, s2) \<Rightarrow> (Inr r, s2)))"

section \<open>Streaming chat\<close>

text \<open>
  The payload of an event; the generator yields the text \<open>sse_frame w payload\<close>,
  \<^verbatim>\<open>f"data: {json.dumps(data)}\n\n"\<close>.
\<close>

definition sse_frame :: "world \<Rightarrow> pyval \<Rightarrow> string" where
  "sse_frame w payload = ''data: '' @ json_dumps w None payload @ NL @ NL"

definition delta_event :: "pyobj \<Rightarrow> pyval" where
  "delta_event chunk =
     PDict [(''delta'', if hasattr chunk ''delta_content''
                        then dict_get (attrs chunk) ''delta_content'' PNone
                        else PStr (text_of chunk)),
            (''phase'', if hasattr chunk ''phase''
                        then dict_get (attrs chunk) ''phase'' PNone
                        else PStr ''answer'')]"

definition error_event :: "exn \<Rightarrow> pyval" where
  "error_event e = PDict [(''error'', PStr (str_exn e)), (''phase'', PStr ''error'')]"

text \<open>
  The \<^verbatim>\<open>for chunk in client.stream_completion(...)\<close> loop inside the \<^verbatim>\<open>try\<close> of
  \<^verbatim>\<open>generate_stream\<close>: \<open>k\<close> counts the \<^verbatim>\<open>next()\<close> calls made, \<open>acc\<close> holds the events
  yielded so far. The iterator is the SDK's and need not end, so the loop is a partial
  function: \<open>None\<close> is a loop that never ends.
\<close>

partial_function (option) consume :: "(nat \<Rightarrow> pull) \<Rightarrow> nat \<Rightarrow> pyval list \<Rightarrow> pyval list option"
  where
  "consume it k acc =
     (case it k of
        Stop \<Rightarrow> Some acc
      | Raise e \<Rightarrow> Some (acc @ [error_event e])
      | Yield chunk \<Rightarrow> consume it (Suc k) (acc @ [delta_event chunk]))"

text \<open>What \<^verbatim>\<open>chat_stream\<close> returns: the generator \<^verbatim>\<open>generate_stream\<close>, a closure over
  the client, the messages and the five parameters. It runs when the response is sent.\<close>

datatype StreamingResponse = StreamingResponse client "msg list" params

text \<open>The \<^verbatim>\<open>try\<close> block of \<^verbatim>\<open>generate_stream\<close> up to the loop: the session is created,
  its id is read, and \<^verbatim>\<open>client.stream_completion(...)\<close> is called; the result is the
  iterator of the loop, or the exception raised on the way.\<close>

definition open_stream ::
  "world \<Rightarrow> client \<Rightarrow> msg list \<Rightarrow> params \<Rightarrow> state \<Rightarrow> (exn + (nat \<Rightarrow> pull)) \<times> state" where
  "open_stream w client msgs p s =
     (let c1 = Create_chat client ''Streaming Chat Session'' [p_model p]
                 (initial_message msgs) (enable_thinking p);
          s1 = log_call c1 s
      in case create_chat w c1 of
           Inl e \<Rightarrow> (Inl e, s1)
         | Inr chat \<Rightarrow>
             (case (if truthy chat then method_get chat ''id'' PNone
                    else Inr (PStr ''default'')) of
                Inl e \<Rightarrow> (Inl e, s1)
              | Inr chat_id \<Rightarrow>
                  (let c2 = Stream_completion client chat_id msgs (p_model p)
                              (enable_thinking p) (temperature p) (top_p p) (max_tokens p);
                       s2 = log_call c2 s1
                   in (stream_completion w c2, s2))))"

text \<open>\<^verbatim>\<open>generate_stream\<close>: the events yielded, in order. An exception anywhere in the
  \<^verbatim>\<open>try\<close> block ends the generator with the error event.\<close>

definition generate_stream ::
  "world \<Rightarrow> client \<Rightarrow> msg list \<Rightarrow> params \<Rightarrow> state \<Rightarrow> pyval list option \<times> state" where
  "generate_stream w client msgs p s =
     (case open_stream w client msgs p s of
        (Inl e, s1) \<Rightarrow> (Some [error_event e], s1)
      | (Inr it, s1) \<Rightarrow> (consume it 0 [], s1))"

definition chat_stream ::
  "world \<Rightarrow> ChatRequest \<Rightarrow> state \<Rightarrow> (http_error + StreamingResponse) \<times> state" where
  "chat_stream w request s =
     (case get_zai_client w s of
        (Inl e, s1) \<Rightarrow> (Inl (HTTPException 500 (''Streaming failed: '' @ str_exn e)), s1)
      | (Inr client, s1) \<Rightarrow>
          (Inr (StreamingResponse client (map msg_of (messages request))
                  (extract_config (config request))), s1))"

text \<open>The response is sent: the generator of a \<open>StreamingResponse\<close> runs.\<close>

fun send_stream :: "world \<Rightarrow> StreamingResponse \<Rightarrow> state \<Rightarrow> pyval list option \<times> state" where
  "send_stream w (StreamingResponse client msgs p) s = generate_stream w client msgs p s"

section \<open>Tool execution\<close>

text \<open>The three prompts, with the line breaks, the indentation and the trailing blanks of
  the source's string literals.\<close>

definition analysis_prompt :: "world \<Rightarrow> pyval \<Rightarrow> pyval \<Rightarrow> pyval \<Rightarrow> string" where
  "analysis_prompt w owner repo analysis_type =
     ''Analyze the GitHub repository '' @ fmt w owner @ ''/'' @ fmt w repo
       @ '' with focus on '' @ fmt w analysis_type @ ''.'' @ NL
     @ ''            Please provide:'' @ NL
     @ ''            1. Overall repository structure and organization'' @ NL
     @ ''            2. Key technologies and frameworks used  '' @ NL
     @ ''            3. Code quality assessment'' @ NL
     @ ''            4. Architecture patterns identified'' @ NL
     @ ''            5. Potential improvements or issues'' @ NL
     @ ''            '' @ NL
     @ ''            Be specific and actionable in your analysis.''"

definition fence :: string where
  "fence = [CHR 0x60, CHR 0x60, CHR 0x60]"

definition review_prompt :: "world \<Rightarrow> pyval \<Rightarrow> pyval \<Rightarrow> pyval \<Rightarrow> pyval \<Rightarrow> string" where
  "review_prompt w code language review_type context_info =
     ''Please review this '' @ fmt w language @ '' code with focus on '' @ fmt w review_type
       @ '' aspects:'' @ NL
     @ NL
     @ (if truthy context_info then ''Context: '' @ fmt w context_info else []) @ NL
     @ NL
     @ ''Code:'' @ NL
     @ fence @ fmt w language @ NL
     @ fmt w code @ NL
     @ fence @ NL
     @ NL
     @ ''Please provide:'' @ NL
     @ ''1. Code quality assessment'' @ NL
     @ ''2. Security considerations'' @ NL
     @ ''3. Performance implications  '' @ NL
     @ ''4. Best practices adherence'' @ NL
     @ ''5. Specific improvement suggestions'' @ NL
     @ ''6. Potential bugs or issues'' @ NL
     @ NL
     @ ''Be detailed and actionable in your feedback.''"

definition tool_description :: "world \<Rightarrow> string \<Rightarrow> pydict \<Rightarrow> string" where
  "tool_description w tool_name tool_input =
     ''Execute '' @ tool_name @ '' with parameters: '' @ json_dumps w (Some 2) (PDict tool_input)"

definition generic_prompt :: "world \<Rightarrow> string \<Rightarrow> pydict \<Rightarrow> string" where
  "generic_prompt w tool_name tool_input =
     ''Help with this development task: '' @ tool_description w tool_name tool_input
       @ ''. Please provide practical assistance and guidance.''"

text \<open>\<^verbatim>\<open>getattr(response, 'usage', {}).get('total_tokens', 0) if hasattr(response, 'usage') else 0\<close>\<close>

definition tokens_used :: "pyobj \<Rightarrow> exn + pyval" where
  "tokens_used response =
     (if hasattr response ''usage''
      then method_get (getattr_default response ''usage'' (PDict [])) ''total_tokens'' (PInt 0)
      else Inr (PInt 0))"

text \<open>
  The \<^verbatim>\<open>try\<close> block of \<^verbatim>\<open>execute_tool\<close> after the accessor has returned \<open>client\<close>,
  up to the assignment of \<^verbatim>\<open>result\<close>. The three branches are those of the source, in
  its order; in each, the entries of the dict literal are evaluated from left to right.
  (\<^verbatim>\<open>context = request.context or {}\<close> is assigned and never read.)
\<close>

definition tool_result ::
  "world \<Rightarrow> client \<Rightarrow> string \<Rightarrow> pydict \<Rightarrow> state \<Rightarrow> (exn + pyval) \<times> state" where
  "tool_result w client tool_name tool_input s =
     (if tool_name \<in> set [''pythonAnalyzeRepository'', ''analyzeRepositoryStructure''] then
        (let owner = dict_get tool_input ''owner'' (PStr []);
             repo = dict_get tool_input ''repo'' (PStr []);
             analysis_type = dict_get tool_input ''analysisType'' (PStr ''structure'');
             c = Simple_chat client (PStr (analysis_prompt w owner repo analysis_type))
                   (PStr ''0727-360B-API'') (PBool True) (PFloat 3 (- 1)) None None;
             s1 = log_call c s
         in case simple_chat w c of
              Inl e \<Rightarrow> (Inl e, s1)
            | Inr response \<Rightarrow>
                (case getattr response ''content'' of
                   Inl e \<Rightarrow> (Inl e, s1)
                 | Inr analysis \<Rightarrow>
                     (let (t, s2) = read_time w s1
                      in case tokens_used response of
                           Inl e \<Rightarrow> (Inl e, s2)
                         | Inr n \<Rightarrow>
                             (Inr (PDict
                                [(''success'', PBool True),
                                 (''source'', PStr ''zai-python-sdk''),
                                 (''repository'', PStr (fmt w owner @ ''/'' @ fmt w repo)),
                                 (''analysisType'', analysis_type),
                                 (''analysis'', analysis),
                                 (''thinking'', getattr_default response ''thinking'' PNone),
                                 (''model'', PStr ''0727-360B-API''),
                                 (''metadata'', PDict [(''timestamp'', t),
                                                       (''tokensUsed'', n)])]), s2))))
      else if tool_name \<in> set [''pythonCodeReview''] then
        (let code = dict_get tool_input ''code'' (PStr []);
             language = dict_get tool_input ''language'' (PStr ''typescript'');
             review_type = dict_get tool_input ''reviewType'' (PStr ''comprehensive'');
             context_info = dict_get tool_input ''context'' (PStr []);
             c = Simple_chat client (PStr (review_prompt w code language review_type context_info))
                   (PStr ''0727-360B-API'') (PBool True) (PFloat 2 (- 1)) None None;
             s1 = log_call c s
         in case simple_chat w c of
              Inl e \<Rightarrow> (Inl e, s1)
            | Inr response \<Rightarrow>
                (case getattr response ''content'' of
                   Inl e \<Rightarrow> (Inl e, s1)
                 | Inr review \<Rightarrow>
                     (case py_len code of
                        Inl e \<Rightarrow> (Inl e, s1)
                      | Inr n \<Rightarrow>
                          (let (t, s2) = read_time w s1
                           in (Inr (PDict
                                 [(''success'', PBool True),
                                  (''review'', review),
                                  (''thinking'', getattr_default response ''thinking'' PNone),
                                  (''language'', language),
                                  (''reviewType'', review_type),
                                  (''model'', PStr ''0727-360B-API''),
                                  (''codeLength'', n),
                                  (''timestamp'', t)]), s2)))))
      else
        (let c = Simple_chat client (PStr (generic_prompt w tool_name tool_input))
                   (PStr ''glm-4.5v'') (PBool False) (PFloat 7 (- 1)) None None;
             s1 = log_call c s
         in case simple_chat w c of
              Inl e \<Rightarrow> (Inl e, s1)
            | Inr response \<Rightarrow>
                (case getattr response ''content'' of
                   Inl e \<Rightarrow> (Inl e, s1)
                 | Inr cnt \<Rightarrow>
                     (let (t, s2) = read_time w s1
                      in (Inr (PDict
                            [(''success'', PBool True),
                             (''content'', cnt),
                             (''model'', PStr ''glm-4.5v''),
                             (''timestamp'', t)]), s2)))))"

text \<open>The whole \<^verbatim>\<open>try\<close> block of \<^verbatim>\<open>execute_tool\<close>: it returns the success response or
  raises.\<close>

definition execute_tool_try ::
  "world \<Rightarrow> ToolExecutionRequest \<Rightarrow> state \<Rightarrow> (exn + ToolExecutionResponse) \<times> state" where
  "execute_tool_try w request s =
     (case get_zai_client w s of
        (Inl e, s1) \<Rightarrow> (Inl e, s1)
      | (Inr client, s1) \<Rightarrow>
          (case tool_result w client (req_toolName request) (input request) s1 of
             (Inl e, s2) \<Rightarrow> (Inl e, s2)
           | (Inr r, s2) \<Rightarrow>
               (let (t, s3) = read_time w s2
                in (Inr \<lparr>success = True, toolName = req_toolName request,
                         result = Some r, error = None, timestamp = t\<rparr>, s3))))"

text \<open>\<^verbatim>\<open>execute_tool\<close>: the \<^verbatim>\<open>except Exception\<close> clause turns every exception of the
  \<^verbatim>\<open>try\<close> block into the failure response.\<close>

definition execute_tool ::
  "world \<Rightarrow> ToolExecutionRequest \<Rightarrow> state \<Rightarrow> ToolExecutionResponse \<times> state" where
  "execute_tool w request s =
     (case execute_tool_try w request s of
        (Inr r, s1) \<Rightarrow> (r, s1)
      | (Inl e, s1) \<Rightarrow>
          (let (t, s2) = read_time w s1
           in (\<lparr>success = False, toolName = req_toolName request,
                result = None, error = Some (str_exn e), timestamp = t\<rparr>, s2)))"

section \<open>The process: requests served one after the other\<close>

text \<open>
  The handlers are coroutines without an \<^verbatim>\<open>await\<close>, so the event loop runs each to
  its end before the next starts. A run of the process is a list of events: the startup
  hook or a request to one of the five endpoints. For \<^verbatim>\<open>/chat-stream\<close> the generator
  of the response is run as well.
\<close>

datatype request =
    Startup
  | Health
  | Tools
  | Chat ChatRequest
  | ChatStream ChatRequest
  | ExecuteTool ToolExecutionRequest

fun handle :: "world \<Rightarrow> request \<Rightarrow> state \<Rightarrow> state" where
  "handle w Startup s = startup_event w s"
| "handle w Health s = snd (health_check w s)"
| "handle w Tools s = s"
| "handle w (Chat r) s = snd (chat_completion w r s)"
| "handle w (ChatStream r) s =
     (case chat_stream w r s of
        (Inl e, s1) \<Rightarrow> s1
      | (Inr sr, s1) \<Rightarrow> snd (send_stream w sr s1))"
| "handle w (ExecuteTool r) s = snd (execute_tool w r s)"

fun serve :: "world \<Rightarrow> request list \<Rightarrow> state \<Rightarrow> state" where
  "serve w [] s = s"
| "serve w (r # rs) s = serve w rs (handle w r s)"

text \<open>The client instances that the first \<open>n\<close> evaluations of the constructor have
  produced.\<close>

definition constructed :: "world \<Rightarrow> nat \<Rightarrow> client list" where
  "constructed w n =
     concat (map (\<lambda>k. case new_client w k of Inl e \<Rightarrow> [] | Inr c \<Rightarrow> [c]) [0..<n])"

section \<open>Sample worlds and requests\<close>

text \<open>
  Concrete worlds on which the theorems below are exercised. In \<open>sample_world\<close> the
  SDK answers every call; the chat calls return a response object with a content of
  \<^verbatim>\<open>"ok"\<close>, a stream has two chunks. In the examples only strings are formatted and
  only the empty dict is serialised with an indent, so \<open>py_str\<close> and \<open>json_dumps\<close> are
  given on those inputs alone. In \<open>flaky_world\<close> the first evaluation of the constructor
  raises and the later ones succeed.
\<close>

definition sample_response :: pyobj where
  "sample_response = \<lparr>cls = ''ChatResponse'', attrs = [(''content'', PStr ''ok'')], text_of = []\<rparr>"

definition sample_chunk :: "string \<Rightarrow> pyobj" where
  "sample_chunk d = \<lparr>cls = ''Chunk'', attrs = [(''delta_content'', PStr d)], text_of = d\<rparr>"

definition sample_world :: world where
  "sample_world =
     \<lparr>new_client = (\<lambda>k. Inr (Client k)),
      simple_chat = (\<lambda>c. Inr sample_response),
      create_chat = (\<lambda>c. Inr (PDict [(''id'', PStr ''chat-1'')])),
      complete_chat = (\<lambda>c. Inr sample_response),
      stream_completion =
        (\<lambda>c. Inr (\<lambda>k. if k = 0 then Yield (sample_chunk ''Hel'')
                       else if k = 1 then Yield (sample_chunk ''lo'') else Stop)),
      presets = (\<lambda>n. if n = ''creative'' then Some [(''temperature'', PFloat 9 (- 1))] else None),
      list_presets = Inr (PList [PStr ''creative'']),
      py_str = (\<lambda>v. []),
      json_dumps = (\<lambda>i v. if v = PDict [] then ''{}'' else []),
      loop_time = (\<lambda>k. PFloat (int k) 0)\<rparr>"

definition flaky_world :: world where
  "flaky_world =
     sample_world\<lparr>new_client :=
       (\<lambda>k. if k = 0 then Inl (Exception ''RuntimeError'' ''authentication failed'')
            else Inr (Client k))\<rparr>"

section \<open>Notions used in the statements\<close>

text \<open>The value of a key of a handler's response dict, if the key is there.\<close>

definition field :: "pyval \<Rightarrow> string \<Rightarrow> pyval option" where
  "field v k = (case v of PDict d \<Rightarrow> map_of d k | _ \<Rightarrow> None)"

text \<open>The part of the state that the accessor owns, and the invariant that ties the
  global to the instances constructed so far.\<close>

definition held :: "state \<Rightarrow> client option \<times> nat" where
  "held s = (zai_client s, ctor_calls s)"

definition handle_inv :: "world \<Rightarrow> state \<Rightarrow> bool" where
  "handle_inv w s = (case zai_client s of None \<Rightarrow> constructed w (ctor_calls s) = []
      | Some c \<Rightarrow> constructed w (ctor_calls s) = [c])"

text \<open>The calls a handler has added to the log, and the calls that open a session.\<close>

definition calls_made :: "state \<Rightarrow> state \<Rightarrow> call list" where
  "calls_made s s' = drop (length (log s)) (log s')"

fun creates_session :: "call \<Rightarrow> bool" where
  "creates_session (Create_chat c t ms i e) = True"
| "creates_session x = False"

text \<open>Sample requests: a single user message without configuration, and a conversation
  of two messages that names the preset \<^verbatim>\<open>creative\<close> of \<open>sample_world\<close>.\<close>

definition hello_request :: ChatRequest where
  "hello_request =
     \<lparr>messages = [\<lparr>role = ''user'', content = ''hi'', msg_timestamp = None\<rparr>], config = []\<rparr>"

definition preset_request :: ChatRequest where
  "preset_request =
     \<lparr>messages = [\<lparr>role = ''system'', content = ''Be brief.'', msg_timestamp = None\<rparr>,
                  \<lparr>role = ''user'', content = ''hi'', msg_timestamp = None\<rparr>],
      config = [(''preset'', PStr ''creative'')]\<rparr>"

text \<open>The tool request of the spec's example, and a request for a tool that no branch of
  \<^verbatim>\<open>execute_tool\<close> names.\<close>

definition review_request :: ToolExecutionRequest where
  "review_request =
     \<lparr>req_toolName = ''pythonCodeReview'',
      input = [(''code'', PStr ''x=1''), (''language'', PStr ''python'')],
      tool_context = None\<rparr>"

definition unknown_tool_request :: ToolExecutionRequest where
  "unknown_tool_request = \<lparr>req_toolName = ''formatCode'', input = [], tool_context = None\<rparr>"

text \<open>The temperature argument of a call, and the order of two decimal literals
  \<open>m * 10^e\<close> and \<open>n * 10^f\<close>, compared at their common exponent.\<close>

fun call_temperature :: "call \<Rightarrow> pyval" where
  "call_temperature (Simple_chat c m mdl th t tp mt) = t"
| "call_temperature (Complete_chat c i ms mdl th t tp mt) = t"
| "call_temperature (Stream_completion c i ms mdl th t tp mt) = t"
| "call_temperature (Create_chat c t ms i th) = PNone"

definition decimal_less :: "pyval \<Rightarrow> pyval \<Rightarrow> bool" where
  "decimal_less a b =
     (case (a, b) of
        (PFloat m e, PFloat n f) \<Rightarrow>
          m * 10 ^ nat (e - min e f) < n * 10 ^ nat (f - min e f)
      | _ \<Rightarrow> False)"

text \<open>The one call that \<^verbatim>\<open>execute_tool\<close> makes on the SDK, by branch: the three
  \<^verbatim>\<open>client.simple_chat(...)\<close> of the source with their literal arguments.\<close>

definition tool_call :: "world \<Rightarrow> client \<Rightarrow> string \<Rightarrow> pydict \<Rightarrow> call" where
  "tool_call w c n i =
    (if n \<in> set [''pythonAnalyzeRepository'', ''analyzeRepositoryStructure''] then
       Simple_chat c
         (PStr (analysis_prompt w (dict_get i ''owner'' (PStr [])) (dict_get i ''repo'' (PStr []))
                  (dict_get i ''analysisType'' (PStr ''structure''))))
         (PStr ''0727-360B-API'') (PBool True) (PFloat 3 (- 1)) None None
     else if n \<in> set [''pythonCodeReview''] then
       Simple_chat c
         (PStr (review_prompt w (dict_get i ''code'' (PStr []))
                  (dict_get i ''language'' (PStr ''typescript''))
                  (dict_get i ''reviewType'' (PStr ''comprehensive''))
                  (dict_get i ''context'' (PStr []))))
         (PStr ''0727-360B-API'') (PBool True) (PFloat 2 (- 1)) None None
     else
       Simple_chat c (PStr (generic_prompt w n i)) (PStr ''glm-4.5v'') (PBool False)
         (PFloat 7 (- 1)) None None)"

text \<open>
  Streams. A pull that hands out a chunk; an iterator that ends at its \<open>n\<close>-th pull
  (the first \<open>n\<close> pulls hand out chunks, the next one stops or raises); the delta events
  of the first \<open>n\<close> pulls; and the events that the \<^verbatim>\<open>except\<close> clause of
  \<^verbatim>\<open>generate_stream\<close> builds, told by their \<^verbatim>\<open>error\<close> key (a delta event has the keys
  \<^verbatim>\<open>delta\<close> and \<^verbatim>\<open>phase\<close> and carries whatever phase tag the chunk has).
\<close>

fun is_yield :: "pull \<Rightarrow> bool" where
  "is_yield (Yield chunk) = True"
| "is_yield x = False"

definition ends_at :: "(nat \<Rightarrow> pull) \<Rightarrow> nat \<Rightarrow> bool" where
  "ends_at it n = ((\<forall>j<n. is_yield (it j)) \<and> \<not> is_yield (it n))"

definition deltas :: "(nat \<Rightarrow> pull) \<Rightarrow> nat \<Rightarrow> pyval list" where
  "deltas it n =
     concat (map (\<lambda>j. case it j of Yield chunk \<Rightarrow> [delta_event chunk] | _ \<Rightarrow> []) [0..<n])"

definition is_error_event :: "pyval \<Rightarrow> bool" where
  "is_error_event ev = (field ev ''error'' \<noteq> None)"

text \<open>A world whose stream hands out one chunk and then raises.\<close>

definition broken_stream_world :: world where
  "broken_stream_world =
     sample_world\<lparr>stream_completion :=
       (\<lambda>c. Inr (\<lambda>k. if k = 0 then Yield (sample_chunk ''Hel'')
                      else Raise (Exception ''ConnectionError'' ''connection lost'')))\<rparr>"

section \<open>The client handle\<close>

text \<open>Nothing but the accessor writes the global or evaluates the constructor.\<close>

lemma log_call_frame [simp]:
  "zai_client (log_call c s) = zai_client s" "ctor_calls (log_call c s) = ctor_calls s"
  by (simp_all add: log_call_def)

lemma read_time_frame [simp]:
  "zai_client (snd (read_time w s)) = zai_client s" "ctor_calls (snd (read_time w s)) = ctor_calls s"
  by (simp_all add: read_time_def)

lemma tool_result_frame0:
  "tool_result w c n i s = (r, s') \<Longrightarrow> zai_client s' = zai_client s \<and> ctor_calls s' = ctor_calls s"
  by (auto simp: tool_result_def Let_def read_time_def log_call_def split: if_splits sum.splits prod.splits)

lemma tool_result_frame [simp]:
  "zai_client (snd (tool_result w c n i s)) = zai_client s"
  "ctor_calls (snd (tool_result w c n i s)) = ctor_calls s"
  using tool_result_frame0[OF surjective_pairing] by blast+

lemma chat_body_frame0:
  "chat_completion_body w c r s = (x, s') \<Longrightarrow> zai_client s' = zai_client s \<and> ctor_calls s' = ctor_calls s"
  by (auto simp: chat_completion_body_def Let_def log_call_def split: if_splits sum.splits prod.splits)

lemma chat_body_frame [simp]:
  "zai_client (snd (chat_completion_body w c r s)) = zai_client s"
  "ctor_calls (snd (chat_completion_body w c r s)) = ctor_calls s"
  using chat_body_frame0[OF surjective_pairing] by blast+

lemma generate_stream_frame0:
  "generate_stream w c ms p s = (x, s') \<Longrightarrow> zai_client s' = zai_client s \<and> ctor_calls s' = ctor_calls s"
  by (auto simp: generate_stream_def open_stream_def Let_def log_call_def
      split: if_splits sum.splits prod.splits)

lemma generate_stream_frame [simp]:
  "zai_client (snd (generate_stream w c ms p s)) = zai_client s"
  "ctor_calls (snd (generate_stream w c ms p s)) = ctor_calls s"
  using generate_stream_frame0[OF surjective_pairing] by blast+

lemma handle_frame:
  "held (handle w r s) = held (snd (get_zai_client w s)) \<or> held (handle w r s) = held s"
proof (cases r)
  case Startup then show ?thesis by (simp add: startup_event_def)
next
  case Health then show ?thesis
    by (auto simp: held_def health_check_def read_time_def split: prod.splits sum.splits)
next
  case Tools then show ?thesis by simp
next
  case (Chat x)
  obtain a s1 where g: "get_zai_client w s = (a, s1)" by force
  show ?thesis
  proof (cases a)
    case (Inl e) with g Chat show ?thesis by (simp add: chat_completion_def)
  next
    case (Inr c)
    obtain b s2 where b: "chat_completion_body w c x s1 = (b, s2)" by force
    from chat_body_frame[of w c x s1] b have "held s2 = held s1" by (simp add: held_def)
    with g Chat Inr b show ?thesis by (cases b) (simp_all add: chat_completion_def)
  qed
next
  case (ChatStream x)
  obtain a s1 where g: "get_zai_client w s = (a, s1)" by force
  show ?thesis
  proof (cases a)
    case (Inl e) with g ChatStream show ?thesis by (simp add: chat_stream_def)
  next
    case (Inr c)
    with g ChatStream show ?thesis by (simp add: chat_stream_def held_def)
  qed
next
  case (ExecuteTool x)
  obtain a s1 where g: "get_zai_client w s = (a, s1)" by force
  show ?thesis
  proof (cases a)
    case (Inl e) with g ExecuteTool show ?thesis
      by (simp add: execute_tool_def execute_tool_try_def held_def read_time_def)
  next
    case (Inr c)
    obtain b s2 where b: "tool_result w c (req_toolName x) (input x) s1 = (b, s2)" by force
    from tool_result_frame[of w c "req_toolName x" "input x" s1] b
    have "zai_client s2 = zai_client s1" "ctor_calls s2 = ctor_calls s1" by simp_all
    with g ExecuteTool Inr b show ?thesis
      by (cases b) (simp_all add: execute_tool_def execute_tool_try_def held_def read_time_def split: prod.splits)
  qed
qed

lemma constructed_Suc:
  "constructed w (Suc n) = constructed w n @ (case new_client w n of Inl e \<Rightarrow> [] | Inr c \<Rightarrow> [c])"
  by (simp add: constructed_def)

lemma get_zai_client_inv:
  "handle_inv w s \<Longrightarrow> handle_inv w (snd (get_zai_client w s))"
  by (auto simp: handle_inv_def get_zai_client_def constructed_Suc split: option.splits sum.splits)

lemma handle_inv_held: "held s' = held s \<Longrightarrow> handle_inv w s' = handle_inv w s"
  by (auto simp: handle_inv_def held_def split: option.splits)

lemma handle_preserves_inv: "handle_inv w s \<Longrightarrow> handle_inv w (handle w r s)"
  using handle_frame[of w r s] get_zai_client_inv[of w s]
    handle_inv_held[of "handle w r s" "snd (get_zai_client w s)" w] handle_inv_held[of "handle w r s" s w]
  by blast

lemma serve_inv: "handle_inv w s \<Longrightarrow> handle_inv w (serve w rs s)"
  by (induction rs arbitrary: s) (auto intro: handle_preserves_inv)

lemma handle_held:
  "zai_client s = Some c \<Longrightarrow> held (handle w r s) = held s"
  using handle_frame[of w r s] by (auto simp: get_zai_client_def)

lemma serve_held:
  "zai_client s = Some c \<Longrightarrow> held (serve w rs s) = held s"
proof (induction rs arbitrary: s)
  case Nil then show ?case by simp
next
  case (Cons r rs)
  from handle_held[OF Cons.prems, of w r] have h: "held (handle w r s) = held s" .
  with Cons.prems have "zai_client (handle w r s) = Some c" by (simp add: held_def)
  from Cons.IH[OF this] h show ?case by simp
qed

lemma get_zai_client_held:
  "zai_client s = Some c \<Longrightarrow> get_zai_client w s = (Inr c, s)"
  by (simp add: get_zai_client_def)

text \<open>
  C9. In every run of the process, whatever the startup hook and the requests before
  (\<open>pre\<close>) and after (\<open>post\<close>): at most one client instance has been constructed, and
  the global holds it if there is one. Once the global holds an instance, the accessor
  returns it without evaluating the constructor, and after any further requests the
  global still holds the same instance, the accessor still returns it, and the constructor
  has not been evaluated again. While the global is empty, the accessor evaluates the
  constructor: the instance it returns is stored and returned; when it raises, the
  exception is passed on and the global stays empty.
\<close>

theorem single_client_instance:
  "let s = serve w pre initial_state; s' = serve w post s in
     length (constructed w (ctor_calls s)) \<le> 1
     \<and> zai_client s = (case constructed w (ctor_calls s) of [] \<Rightarrow> None | c # cs \<Rightarrow> Some c)
     \<and> (\<forall>c. zai_client s = Some c \<longrightarrow>
           get_zai_client w s = (Inr c, s) \<and> zai_client s' = Some c \<and> ctor_calls s' = ctor_calls s
           \<and> fst (get_zai_client w s') = Inr c)
     \<and> (\<forall>c. zai_client s = None \<and> new_client w (ctor_calls s) = Inr c \<longrightarrow>
           fst (get_zai_client w s) = Inr c \<and> zai_client (snd (get_zai_client w s)) = Some c)
     \<and> (\<forall>e. zai_client s = None \<and> new_client w (ctor_calls s) = Inl e \<longrightarrow>
           fst (get_zai_client w s) = Inl e \<and> zai_client (snd (get_zai_client w s)) = None)"
proof -
  define s where "s = serve w pre initial_state"
  define s' where "s' = serve w post s"
  have "handle_inv w initial_state"
    by (simp add: handle_inv_def initial_state_def constructed_def)
  then have inv: "handle_inv w s" unfolding s_def by (rule serve_inv)
  have a: "length (constructed w (ctor_calls s)) \<le> 1"
    using inv by (auto simp: handle_inv_def split: option.splits)
  have b: "zai_client s = (case constructed w (ctor_calls s) of [] \<Rightarrow> None | c # cs \<Rightarrow> Some c)"
    using inv by (auto simp: handle_inv_def split: option.splits)
  have c: "get_zai_client w s = (Inr c, s) \<and> zai_client s' = Some c \<and> ctor_calls s' = ctor_calls s
           \<and> fst (get_zai_client w s') = Inr c" if h: "zai_client s = Some c" for c
  proof -
    from serve_held[OF h, of w post] h
    have k: "zai_client s' = Some c" "ctor_calls s' = ctor_calls s"
      by (simp_all add: held_def s'_def)
    from h k show ?thesis by (simp add: get_zai_client_held)
  qed
  have d: "fst (get_zai_client w s) = Inr c \<and> zai_client (snd (get_zai_client w s)) = Some c"
    if "zai_client s = None \<and> new_client w (ctor_calls s) = Inr c" for c
    using that by (simp add: get_zai_client_def)
  have e: "fst (get_zai_client w s) = Inl e \<and> zai_client (snd (get_zai_client w s)) = None"
    if "zai_client s = None \<and> new_client w (ctor_calls s) = Inl e" for e
    using that by (simp add: get_zai_client_def)
  from a b c d e show ?thesis
    unfolding Let_def s_def[symmetric] s'_def[symmetric] by blast
qed

text \<open>
  The theorem at work in \<open>flaky_world\<close>. Before any request the global is empty and the
  first evaluation of the constructor raises; after the startup hook the global is still
  empty and the second evaluation returns \<open>Client 1\<close>; after the startup hook and a health
  probe the global holds \<open>Client 1\<close>, and a chat request later it still does.
\<close>

theorem single_client_instance_witness:
  "fst (get_zai_client flaky_world initial_state)
     = Inl (Exception ''RuntimeError'' ''authentication failed'')
   \<and> zai_client (snd (get_zai_client flaky_world (serve flaky_world [Startup] initial_state)))
     = Some (Client 1)
   \<and> constructed flaky_world
       (ctor_calls (serve flaky_world [Startup, Health] initial_state)) = [Client 1]
   \<and> zai_client (serve flaky_world [Tools, Health]
       (serve flaky_world [Startup, Health] initial_state)) = Some (Client 1)"
proof -
  have s0: "serve flaky_world [] initial_state = initial_state" by simp
  have s1: "serve flaky_world [Startup] initial_state
              = \<lparr>zai_client = None, ctor_calls = 1, log = [], time_reads = 0\<rparr>"
    by (simp add: startup_event_def get_zai_client_def flaky_world_def sample_world_def
        initial_state_def)
  have s2: "serve flaky_world [Startup, Health] initial_state
              = \<lparr>zai_client = Some (Client 1), ctor_calls = 2, log = [], time_reads = 1\<rparr>"
    by (simp add: startup_event_def health_check_def read_time_def get_zai_client_def
        flaky_world_def sample_world_def initial_state_def)
  have c2: "constructed flaky_world 2 = [Client 1]"
    by (simp add: constructed_def flaky_world_def sample_world_def upt_rec)
  have n0: "new_client flaky_world 0 = Inl (Exception ''RuntimeError'' ''authentication failed'')"
    and n1: "new_client flaky_world 1 = Inr (Client 1)"
    by (simp_all add: flaky_world_def sample_world_def)
  from single_client_instance[of flaky_world "[]" "[]"] n0
  have a: "fst (get_zai_client flaky_world initial_state)
             = Inl (Exception ''RuntimeError'' ''authentication failed'')"
    by (simp add: Let_def initial_state_def)
  from single_client_instance[of flaky_world "[Startup]" "[]"] n1
  have b: "zai_client (snd (get_zai_client flaky_world (serve flaky_world [Startup] initial_state)))
             = Some (Client 1)"
    unfolding s1 Let_def by simp
  have z: "zai_client (serve flaky_world [Startup, Health] initial_state) = Some (Client 1)"
    unfolding s2 by simp
  from single_client_instance[of flaky_world "[Startup, Health]" "[Tools, Health]"] z
  have c: "zai_client (serve flaky_world [Tools, Health]
             (serve flaky_world [Startup, Health] initial_state)) = Some (Client 1)"
    unfolding Let_def by blast
  from a b c show ?thesis unfolding s2 by (simp add: c2)
qed

section \<open>The health probe\<close>

text \<open>
  C10, as the code has it. The probe calls the accessor, which creates the client when
  there is none. When the client exists, the answer is healthy with \<open>client_ready\<close> true
  and the client is left as it is. When it does not exist and the constructor returns an
  instance, the answer is the same and the probe has initialised the client. When the
  constructor raises, the answer is unhealthy with the error text, it has no
  \<open>client_ready\<close> field, and the client stays uninitialised.
\<close>

theorem health_check_get_or_create:
  "(\<forall>c. zai_client s = Some c \<longrightarrow>
        field (fst (health_check w s)) ''status'' = Some (PStr ''healthy'')
      \<and> field (fst (health_check w s)) ''client_ready'' = Some (PBool True)
      \<and> zai_client (snd (health_check w s)) = Some c
      \<and> ctor_calls (snd (health_check w s)) = ctor_calls s)
   \<and> (\<forall>c. zai_client s = None \<and> new_client w (ctor_calls s) = Inr c \<longrightarrow>
        field (fst (health_check w s)) ''status'' = Some (PStr ''healthy'')
      \<and> field (fst (health_check w s)) ''client_ready'' = Some (PBool True)
      \<and> zai_client (snd (health_check w s)) = Some c)
   \<and> (\<forall>e. zai_client s = None \<and> new_client w (ctor_calls s) = Inl e \<longrightarrow>
        field (fst (health_check w s)) ''status'' = Some (PStr ''unhealthy'')
      \<and> field (fst (health_check w s)) ''error'' = Some (PStr (str_exn e))
      \<and> field (fst (health_check w s)) ''client_ready'' = None
      \<and> zai_client (snd (health_check w s)) = None)"
  by (simp add: health_check_def get_zai_client_def read_time_def field_def)

theorem health_check_get_or_create_witness:
  "zai_client (snd (health_check sample_world
       \<lparr>zai_client = Some (Client 7), ctor_calls = 1, log = [], time_reads = 0\<rparr>)) = Some (Client 7)
   \<and> field (fst (health_check sample_world initial_state)) ''status'' = Some (PStr ''healthy'')
   \<and> field (fst (health_check flaky_world initial_state)) ''error''
       = Some (PStr ''authentication failed'')"
  using health_check_get_or_create[of
          "\<lparr>zai_client = Some (Client 7), ctor_calls = 1, log = [], time_reads = 0\<rparr>" sample_world]
        health_check_get_or_create[of initial_state sample_world]
        health_check_get_or_create[of initial_state flaky_world]
  by (simp add: initial_state_def flaky_world_def sample_world_def)

text \<open>
  C10 as the claim words it fails before the client exists: in \<open>sample_world\<close> the first
  probe of a fresh process answers \<open>client_ready\<close> true although no client existed when it
  was called, and the probe itself has created the client.
\<close>

theorem health_check_counterexample:
  "zai_client initial_state = None
   \<and> field (fst (health_check sample_world initial_state)) ''client_ready'' = Some (PBool True)
   \<and> zai_client (snd (health_check sample_world initial_state)) = Some (Client 0)"
  by (simp add: health_check_def get_zai_client_def read_time_def field_def
      initial_state_def sample_world_def)

section \<open>Chat: which calls a request turns into\<close>

lemma get_zai_client_log [simp]: "log (snd (get_zai_client w s)) = log s"
  by (simp add: get_zai_client_def split: option.splits sum.splits)

lemma apply_preset_total: "\<exists>p. apply_preset w cfg p0 = Inr p"
  by (auto simp: apply_preset_def Let_def get_preset_def method_get_def split: pyval.splits option.splits)

lemma chat_single_user_log:
  assumes "messages request = [m]" "role m = ''user''"
    and "apply_preset w (config request) (extract_config (config request)) = Inr p"
  shows "log (snd (chat_completion_body w c request s)) =
         log s @ [Simple_chat c (PStr (content m)) (p_model p) (enable_thinking p)
                    (temperature p) (Some (top_p p)) (Some (max_tokens p))]"
  using assms
  by (simp add: chat_completion_body_def msg_of_def log_call_def Let_def split: sum.splits)

lemma chat_completion_log:
  "log (snd (chat_completion w request s)) =
     (case get_zai_client w s of
        (Inl e, s1) \<Rightarrow> log s
      | (Inr c, s1) \<Rightarrow> log (snd (chat_completion_body w c request s1)))"
proof -
  obtain r s1 where g: "get_zai_client w s = (r, s1)" by force
  with get_zai_client_log[of w s] have "log s1 = log s" by simp
  with g show ?thesis
    by (auto simp: chat_completion_def split: prod.splits sum.splits)
qed

lemma chat_conversation_log:
  assumes "\<not> (length (messages request) = 1 \<and> role (hd (messages request)) = ''user'')"
    and "apply_preset w (config request) (extract_config (config request)) = Inr p"
  shows "log (snd (chat_completion_body w c request s)) =
         log s @
         (let msgs = map msg_of (messages request);
              c1 = Create_chat c ''API Chat Session'' [p_model p]
                     (case messages request of [] \<Rightarrow> PStr ''Hello'' | m # ms \<Rightarrow> PStr (content m))
                     (enable_thinking p)
          in case create_chat w c1 of
               Inl e \<Rightarrow> [c1]
             | Inr chat \<Rightarrow>
                 (case (if truthy chat then method_get chat ''id'' PNone else Inr PNone) of
                    Inl e \<Rightarrow> [c1]
                  | Inr chat_id \<Rightarrow>
                      [c1, Complete_chat c chat_id msgs (p_model p) (enable_thinking p)
                             (temperature p) (top_p p) (max_tokens p)]))"
proof -
  have i: "initial_message (map msg_of (messages request)) =
           (case messages request of [] \<Rightarrow> PStr ''Hello'' | m # ms \<Rightarrow> PStr (content m))"
    by (cases "messages request") (simp_all add: initial_message_def msg_of_def)
  have n: "\<not> (length (map msg_of (messages request)) = 1 \<and>
              m_role (hd (map msg_of (messages request))) = ''user'')"
    using assms(1) by (cases "messages request") (simp_all add: msg_of_def)
  show ?thesis
    unfolding chat_completion_body_def Let_def assms(2) i
    using n by (simp add: log_call_def split: sum.splits)
qed

text \<open>
  C4. A chat request names a preset (the configuration's \<^verbatim>\<open>preset\<close> is a non-empty
  string). When the name is unknown to the resolver, the preset step of
  \<^verbatim>\<open>chat_completion\<close> does not raise and returns the five parameters as extracted from
  the caller's configuration. When the preset exists, the step does not raise either;
  model and thinking flag are unchanged, and each of temperature, top-p and max tokens
  is the preset's value when the preset has the key and the caller's value when not.
\<close>

theorem preset_resolution:
  assumes "dict_get cfg ''preset'' PNone = PStr name" and "name \<noteq> []"
  shows
   "(presets w name = None \<longrightarrow> apply_preset w cfg (extract_config cfg) = Inr (extract_config cfg))
    \<and> (\<forall>d. presets w name = Some d \<longrightarrow>
          (\<exists>p. apply_preset w cfg (extract_config cfg) = Inr p
             \<and> p_model p = p_model (extract_config cfg)
             \<and> enable_thinking p = enable_thinking (extract_config cfg)
             \<and> temperature p = (case map_of d ''temperature'' of
                                  None \<Rightarrow> temperature (extract_config cfg) | Some v \<Rightarrow> v)
             \<and> top_p p = (case map_of d ''top_p'' of
                            None \<Rightarrow> top_p (extract_config cfg) | Some v \<Rightarrow> v)
             \<and> max_tokens p = (case map_of d ''max_tokens'' of
                                 None \<Rightarrow> max_tokens (extract_config cfg) | Some v \<Rightarrow> v)))"
  using assms
  by (cases "presets w name")
     (auto simp: apply_preset_def get_preset_def method_get_def dict_get_def Let_def)

theorem preset_resolution_witness:
  "apply_preset sample_world [(''preset'', PStr ''nowhere''), (''topP'', PFloat 5 (- 1))]
       (extract_config [(''preset'', PStr ''nowhere''), (''topP'', PFloat 5 (- 1))])
     = Inr \<lparr>p_model = PStr ''glm-4.5v'', enable_thinking = PBool True,
            temperature = PFloat 7 (- 1), top_p = PFloat 5 (- 1), max_tokens = PInt 2000\<rparr>
   \<and> apply_preset sample_world [(''preset'', PStr ''creative''), (''topP'', PFloat 5 (- 1))]
       (extract_config [(''preset'', PStr ''creative''), (''topP'', PFloat 5 (- 1))])
     = Inr \<lparr>p_model = PStr ''glm-4.5v'', enable_thinking = PBool True,
            temperature = PFloat 9 (- 1), top_p = PFloat 5 (- 1), max_tokens = PInt 2000\<rparr>"
proof -
  let ?c1 = "[(''preset'', PStr ''nowhere''), (''topP'', PFloat 5 (- 1))]"
  let ?c2 = "[(''preset'', PStr ''creative''), (''topP'', PFloat 5 (- 1))]"
  have n1: "dict_get ?c1 ''preset'' PNone = PStr ''nowhere''"
    and n2: "dict_get ?c2 ''preset'' PNone = PStr ''creative''"
    by (simp_all add: dict_get_def)
  have p1: "presets sample_world ''nowhere'' = None"
    and p2: "presets sample_world ''creative'' = Some [(''temperature'', PFloat 9 (- 1))]"
    by (simp_all add: sample_world_def)
  have e1: "extract_config ?c1 = \<lparr>p_model = PStr ''glm-4.5v'', enable_thinking = PBool True,
            temperature = PFloat 7 (- 1), top_p = PFloat 5 (- 1), max_tokens = PInt 2000\<rparr>"
    and e2: "extract_config ?c2 = \<lparr>p_model = PStr ''glm-4.5v'', enable_thinking = PBool True,
            temperature = PFloat 7 (- 1), top_p = PFloat 5 (- 1), max_tokens = PInt 2000\<rparr>"
    by (simp_all add: extract_config_def dict_get_def)
  from preset_resolution[OF n1, of sample_world] p1
  have a: "apply_preset sample_world ?c1 (extract_config ?c1) = Inr (extract_config ?c1)"
    by simp
  from preset_resolution[OF n2, of sample_world] p2
  obtain p where p: "apply_preset sample_world ?c2 (extract_config ?c2) = Inr p"
    "p_model p = p_model (extract_config ?c2)"
    "enable_thinking p = enable_thinking (extract_config ?c2)"
    "temperature p = PFloat 9 (- 1)" "top_p p = top_p (extract_config ?c2)"
    "max_tokens p = max_tokens (extract_config ?c2)"
    by auto
  from p(2-6) have "p = \<lparr>p_model = PStr ''glm-4.5v'', enable_thinking = PBool True,
            temperature = PFloat 9 (- 1), top_p = PFloat 5 (- 1), max_tokens = PInt 2000\<rparr>"
    unfolding e2 by (cases p) simp
  with a p(1) show ?thesis unfolding e1 by simp
qed

text \<open>
  C2. The request has exactly one message and its role is \<^verbatim>\<open>user\<close>. When the accessor
  hands out a client, the only call \<^verbatim>\<open>chat_completion\<close> makes on the SDK is one
  \<^verbatim>\<open>simple_chat\<close> with the content of that message and the five parameters as the preset
  step resolved them. When the accessor raises, no call is made. In neither case is a
  session created.
\<close>

theorem single_user_message_simple_chat:
  assumes "messages request = [m]" and "role m = ''user''"
  shows
   "(\<forall>c. fst (get_zai_client w s) = Inr c \<longrightarrow>
        (\<exists>p. apply_preset w (config request) (extract_config (config request)) = Inr p
           \<and> calls_made s (snd (chat_completion w request s)) =
               [Simple_chat c (PStr (content m)) (p_model p) (enable_thinking p)
                  (temperature p) (Some (top_p p)) (Some (max_tokens p))]))
    \<and> (\<forall>e. fst (get_zai_client w s) = Inl e \<longrightarrow>
          calls_made s (snd (chat_completion w request s)) = [])
    \<and> (\<forall>x \<in> set (calls_made s (snd (chat_completion w request s))). \<not> creates_session x)"
proof -
  obtain r s1 where g: "get_zai_client w s = (r, s1)" by force
  with get_zai_client_log[of w s] have l1: "log s1 = log s" by simp
  obtain p where p: "apply_preset w (config request) (extract_config (config request)) = Inr p"
    using apply_preset_total by blast
  show ?thesis
  proof (cases r)
    case (Inl e)
    with g show ?thesis by (simp add: chat_completion_log calls_made_def)
  next
    case (Inr c)
    with g l1 p chat_single_user_log[OF assms p, of c s1] show ?thesis
      by (simp add: chat_completion_log calls_made_def)
  qed
qed

theorem single_user_message_simple_chat_witness:
  "calls_made initial_state (snd (chat_completion sample_world hello_request initial_state)) =
     [Simple_chat (Client 0) (PStr ''hi'') (PStr ''glm-4.5v'') (PBool True) (PFloat 7 (- 1))
        (Some (PFloat 9 (- 1))) (Some (PInt 2000))]"
proof -
  let ?m = "\<lparr>role = ''user'', content = ''hi'', msg_timestamp = None\<rparr>"
  have m: "messages hello_request = [?m]" and r: "role ?m = ''user''"
    by (simp_all add: hello_request_def)
  have g: "fst (get_zai_client sample_world initial_state) = Inr (Client 0)"
    by (simp add: get_zai_client_def sample_world_def initial_state_def)
  have a: "apply_preset sample_world (config hello_request) (extract_config (config hello_request))
             = Inr \<lparr>p_model = PStr ''glm-4.5v'', enable_thinking = PBool True,
                    temperature = PFloat 7 (- 1), top_p = PFloat 9 (- 1), max_tokens = PInt 2000\<rparr>"
    by (simp add: hello_request_def apply_preset_def extract_config_def dict_get_def)
  from single_user_message_simple_chat[OF m r, of sample_world initial_state] g
  obtain p where
    "apply_preset sample_world (config hello_request) (extract_config (config hello_request)) = Inr p"
    "calls_made initial_state (snd (chat_completion sample_world hello_request initial_state)) =
       [Simple_chat (Client 0) (PStr (content ?m)) (p_model p) (enable_thinking p)
          (temperature p) (Some (top_p p)) (Some (max_tokens p))]"
    by blast
  with a show ?thesis by simp
qed

text \<open>
  C3. The request is not a single \<^verbatim>\<open>user\<close> message: it has no message, several
  messages, or one message of another role. When the accessor hands out a client, the
  first call \<^verbatim>\<open>chat_completion\<close> makes is \<^verbatim>\<open>create_chat\<close>, seeded with the content of the
  first message, or with \<^verbatim>\<open>"Hello"\<close> when there is no message. The only other call is the
  \<^verbatim>\<open>complete_chat\<close> that follows it, made unless \<^verbatim>\<open>create_chat\<close> raised or returned a
  value that is true and has no \<^verbatim>\<open>get\<close>; it carries the session's id, all the messages
  of the request in their order, and the resolved parameters. When the accessor raises,
  no call is made.
\<close>

theorem conversation_creates_session:
  assumes "\<not> (length (messages request) = 1 \<and> role (hd (messages request)) = ''user'')"
  shows
   "(\<forall>c. fst (get_zai_client w s) = Inr c \<longrightarrow>
      (\<exists>p. apply_preset w (config request) (extract_config (config request)) = Inr p \<and>
         (let msgs = map msg_of (messages request);
              c1 = Create_chat c ''API Chat Session'' [p_model p]
                     (case messages request of [] \<Rightarrow> PStr ''Hello'' | m # ms \<Rightarrow> PStr (content m))
                     (enable_thinking p)
          in calls_made s (snd (chat_completion w request s)) =
             (case create_chat w c1 of
                Inl e \<Rightarrow> [c1]
              | Inr chat \<Rightarrow>
                  (case (if truthy chat then method_get chat ''id'' PNone else Inr PNone) of
                     Inl e \<Rightarrow> [c1]
                   | Inr chat_id \<Rightarrow>
                       [c1, Complete_chat c chat_id msgs (p_model p) (enable_thinking p)
                              (temperature p) (top_p p) (max_tokens p)])))))
    \<and> (\<forall>e. fst (get_zai_client w s) = Inl e \<longrightarrow>
          calls_made s (snd (chat_completion w request s)) = [])"
proof (intro conjI allI impI)
  fix c assume a: "fst (get_zai_client w s) = Inr c"
  obtain r s1 where g: "get_zai_client w s = (r, s1)" by force
  with get_zai_client_log[of w s] have l1: "log s1 = log s" by simp
  obtain p where p: "apply_preset w (config request) (extract_config (config request)) = Inr p"
    using apply_preset_total by blast
  from a g have r: "r = Inr c" by simp
  from chat_conversation_log[OF assms p, of c s1] g r l1 p
  show "\<exists>p. apply_preset w (config request) (extract_config (config request)) = Inr p \<and>
         (let msgs = map msg_of (messages request);
              c1 = Create_chat c ''API Chat Session'' [p_model p]
                     (case messages request of [] \<Rightarrow> PStr ''Hello'' | m # ms \<Rightarrow> PStr (content m))
                     (enable_thinking p)
          in calls_made s (snd (chat_completion w request s)) =
             (case create_chat w c1 of
                Inl e \<Rightarrow> [c1]
              | Inr chat \<Rightarrow>
                  (case (if truthy chat then method_get chat ''id'' PNone else Inr PNone) of
                     Inl e \<Rightarrow> [c1]
                   | Inr chat_id \<Rightarrow>
                       [c1, Complete_chat c chat_id msgs (p_model p) (enable_thinking p)
                              (temperature p) (top_p p) (max_tokens p)])))"
    by (simp add: chat_completion_log calls_made_def)
next
  fix e assume a: "fst (get_zai_client w s) = Inl e"
  obtain r s1 where g: "get_zai_client w s = (r, s1)" by force
  with a show "calls_made s (snd (chat_completion w request s)) = []"
    by (simp add: chat_completion_log calls_made_def)
qed

theorem conversation_creates_session_witness:
  "calls_made initial_state (snd (chat_completion sample_world preset_request initial_state)) =
     [Create_chat (Client 0) ''API Chat Session'' [PStr ''glm-4.5v''] (PStr ''Be brief.'')
        (PBool True),
      Complete_chat (Client 0) (PStr ''chat-1'')
        [\<lparr>m_role = ''system'', m_content = ''Be brief.''\<rparr>, \<lparr>m_role = ''user'', m_content = ''hi''\<rparr>]
        (PStr ''glm-4.5v'') (PBool True) (PFloat 9 (- 1)) (PFloat 9 (- 1)) (PInt 2000)]"
proof -
  have n: "\<not> (length (messages preset_request) = 1 \<and>
              role (hd (messages preset_request)) = ''user'')"
    by (simp add: preset_request_def)
  have g: "fst (get_zai_client sample_world initial_state) = Inr (Client 0)"
    by (simp add: get_zai_client_def sample_world_def initial_state_def)
  have a: "apply_preset sample_world (config preset_request) (extract_config (config preset_request))
             = Inr \<lparr>p_model = PStr ''glm-4.5v'', enable_thinking = PBool True,
                    temperature = PFloat 9 (- 1), top_p = PFloat 9 (- 1), max_tokens = PInt 2000\<rparr>"
    by (simp add: preset_request_def apply_preset_def extract_config_def dict_get_def
        get_preset_def method_get_def sample_world_def)
  have c: "create_chat sample_world x = Inr (PDict [(''id'', PStr ''chat-1'')])" for x
    by (simp add: sample_world_def)
  from conversation_creates_session[OF n, of sample_world initial_state] g
  show ?thesis
    unfolding a c Let_def
    by (simp add: preset_request_def msg_of_def method_get_def dict_get_def)
qed

section \<open>Streaming chat against chat: the parameters passed\<close>

text \<open>
  C6, at a request that names a preset. In \<open>sample_world\<close> the preset \<^verbatim>\<open>creative\<close> sets
  the temperature to 0.9. For the same request, \<^verbatim>\<open>/chat\<close> passes the temperature 0.9 to
  the SDK and \<^verbatim>\<open>/chat-stream\<close> passes the default 0.7: \<^verbatim>\<open>chat_stream\<close> extracts the
  configuration as \<^verbatim>\<open>chat_completion\<close> does and then has no preset step.
\<close>

theorem chat_stream_skips_preset:
  "calls_made initial_state (snd (chat_completion sample_world preset_request initial_state)) =
     [Create_chat (Client 0) ''API Chat Session'' [PStr ''glm-4.5v''] (PStr ''Be brief.'')
        (PBool True),
      Complete_chat (Client 0) (PStr ''chat-1'')
        [\<lparr>m_role = ''system'', m_content = ''Be brief.''\<rparr>, \<lparr>m_role = ''user'', m_content = ''hi''\<rparr>]
        (PStr ''glm-4.5v'') (PBool True) (PFloat 9 (- 1)) (PFloat 9 (- 1)) (PInt 2000)]
   \<and> calls_made initial_state (handle sample_world (ChatStream preset_request) initial_state) =
     [Create_chat (Client 0) ''Streaming Chat Session'' [PStr ''glm-4.5v''] (PStr ''Be brief.'')
        (PBool True),
      Stream_completion (Client 0) (PStr ''chat-1'')
        [\<lparr>m_role = ''system'', m_content = ''Be brief.''\<rparr>, \<lparr>m_role = ''user'', m_content = ''hi''\<rparr>]
        (PStr ''glm-4.5v'') (PBool True) (PFloat 7 (- 1)) (PFloat 9 (- 1)) (PInt 2000)]"
proof -
  have g: "get_zai_client sample_world initial_state =
           (Inr (Client 0), \<lparr>zai_client = Some (Client 0), ctor_calls = 1, log = [], time_reads = 0\<rparr>)"
    by (simp add: get_zai_client_def sample_world_def initial_state_def)
  have a: "apply_preset sample_world (config preset_request) (extract_config (config preset_request))
             = Inr \<lparr>p_model = PStr ''glm-4.5v'', enable_thinking = PBool True,
                    temperature = PFloat 9 (- 1), top_p = PFloat 9 (- 1), max_tokens = PInt 2000\<rparr>"
    by (simp add: preset_request_def apply_preset_def extract_config_def dict_get_def
        get_preset_def method_get_def sample_world_def)
  have e: "extract_config (config preset_request)
             = \<lparr>p_model = PStr ''glm-4.5v'', enable_thinking = PBool True,
                temperature = PFloat 7 (- 1), top_p = PFloat 9 (- 1), max_tokens = PInt 2000\<rparr>"
    by (simp add: preset_request_def extract_config_def dict_get_def)
  have c: "create_chat sample_world x = Inr (PDict [(''id'', PStr ''chat-1'')])" for x
    by (simp add: sample_world_def)
  have m: "map msg_of (messages preset_request) =
        [\<lparr>m_role = ''system'', m_content = ''Be brief.''\<rparr>, \<lparr>m_role = ''user'', m_content = ''hi''\<rparr>]"
    by (simp add: preset_request_def msg_of_def)
  have 1: "calls_made initial_state (snd (chat_completion sample_world preset_request initial_state)) =
     [Create_chat (Client 0) ''API Chat Session'' [PStr ''glm-4.5v''] (PStr ''Be brief.'')
        (PBool True),
      Complete_chat (Client 0) (PStr ''chat-1'')
        [\<lparr>m_role = ''system'', m_content = ''Be brief.''\<rparr>, \<lparr>m_role = ''user'', m_content = ''hi''\<rparr>]
        (PStr ''glm-4.5v'') (PBool True) (PFloat 9 (- 1)) (PFloat 9 (- 1)) (PInt 2000)]"
    unfolding chat_completion_def g chat_completion_body_def a m Let_def c
    by (simp add: calls_made_def initial_state_def log_call_def initial_message_def
        method_get_def dict_get_def split: sum.splits)
  have 2: "calls_made initial_state (handle sample_world (ChatStream preset_request) initial_state) =
     [Create_chat (Client 0) ''Streaming Chat Session'' [PStr ''glm-4.5v''] (PStr ''Be brief.'')
        (PBool True),
      Stream_completion (Client 0) (PStr ''chat-1'')
        [\<lparr>m_role = ''system'', m_content = ''Be brief.''\<rparr>, \<lparr>m_role = ''user'', m_content = ''hi''\<rparr>]
        (PStr ''glm-4.5v'') (PBool True) (PFloat 7 (- 1)) (PFloat 9 (- 1)) (PInt 2000)]"
    unfolding handle.simps chat_stream_def g e m
    by (simp add: generate_stream_def open_stream_def c Let_def calls_made_def initial_state_def
        log_call_def
        initial_message_def method_get_def dict_get_def split: sum.splits)
  from 1 2 show ?thesis by simp
qed

section \<open>Tool execution\<close>

lemma read_time_eq: "read_time w s = (loop_time w (time_reads s), s\<lparr>time_reads := Suc (time_reads s)\<rparr>)"
  by (simp add: read_time_def)

lemma read_time_log [simp]: "log (snd (read_time w s)) = log s"
  by (simp add: read_time_def)

lemma tool_result_log:
  "log (snd (tool_result w c n i s)) = log s @ [tool_call w c n i]"
  by (simp add: tool_result_def tool_call_def Let_def log_call_def read_time_def
      split: sum.splits prod.splits)

lemma execute_tool_log:
  assumes "fst (get_zai_client w s) = Inr c"
  shows "calls_made s (snd (execute_tool w request s)) =
         [tool_call w c (req_toolName request) (input request)]"
proof -
  obtain s1 where g: "get_zai_client w s = (Inr c, s1)"
    using assms by (cases "get_zai_client w s") simp
  with get_zai_client_log[of w s] have l1: "log s1 = log s" by simp
  obtain a s2 where t: "tool_result w c (req_toolName request) (input request) s1 = (a, s2)"
    by force
  with tool_result_log[of w c "req_toolName request" "input request" s1] l1
  have l2: "log s2 = log s @ [tool_call w c (req_toolName request) (input request)]" by simp
  show ?thesis
    using g t l2
    by (cases a) (simp_all add: execute_tool_def execute_tool_try_def calls_made_def read_time_eq)
qed

lemma tool_result_generic:
  assumes "n \<notin> set [''pythonAnalyzeRepository'', ''analyzeRepositoryStructure'', ''pythonCodeReview'']"
    and "simple_chat w (tool_call w c n i) = Inr response"
    and "getattr response ''content'' = Inr cnt"
  shows "fst (tool_result w c n i s) =
         Inr (PDict [(''success'', PBool True), (''content'', cnt), (''model'', PStr ''glm-4.5v''),
                     (''timestamp'', loop_time w (time_reads s))])"
  using assms
  by (simp add: tool_result_def tool_call_def Let_def read_time_eq log_call_def)

lemma execute_tool_success:
  assumes "get_zai_client w s = (Inr c, s1)"
    and "fst (tool_result w c (req_toolName request) (input request) s1) = Inr payload"
  shows "success (fst (execute_tool w request s))
       \<and> toolName (fst (execute_tool w request s)) = req_toolName request
       \<and> result (fst (execute_tool w request s)) = Some payload"
  using assms
  by (cases "tool_result w c (req_toolName request) (input request) s1")
     (simp add: execute_tool_def execute_tool_try_def read_time_eq)

lemma tool_result_review:
  assumes "simple_chat w (tool_call w c ''pythonCodeReview'' i) = Inr response"
    and "getattr response ''content'' = Inr review"
    and "py_len (dict_get i ''code'' (PStr [])) = Inr n"
  shows "fst (tool_result w c ''pythonCodeReview'' i s) =
         Inr (PDict [(''success'', PBool True), (''review'', review),
                     (''thinking'', getattr_default response ''thinking'' PNone),
                     (''language'', dict_get i ''language'' (PStr ''typescript'')),
                     (''reviewType'', dict_get i ''reviewType'' (PStr ''comprehensive'')),
                     (''model'', PStr ''0727-360B-API''),
                     (''codeLength'', n),
                     (''timestamp'', loop_time w (time_reads s))])"
  using assms
  by (simp add: tool_result_def tool_call_def Let_def read_time_eq log_call_def)

text \<open>
  C1. For every world, state and request, \<^verbatim>\<open>execute_tool\<close> returns a response that names
  the requested tool and carries a reading of the clock. When the \<^verbatim>\<open>try\<close> block returns,
  the response is its response: success with a result payload and no error. When the
  \<^verbatim>\<open>try\<close> block raises, whether in the accessor, in building the prompt or the result, or
  in the SDK, the response is the failure response with the text of the exception and no
  result.
\<close>

theorem execute_tool_total:
  "let r = fst (execute_tool w request s) in
     toolName r = req_toolName request
     \<and> (\<exists>t. timestamp r = loop_time w t)
     \<and> (case fst (execute_tool_try w request s) of
          Inr ok \<Rightarrow> r = ok \<and> success r \<and> (\<exists>payload. result r = Some payload) \<and> error r = None
        | Inl e \<Rightarrow> \<not> success r \<and> result r = None \<and> error r = Some (str_exn e))"
proof -
  obtain a s1 where t: "execute_tool_try w request s = (a, s1)" by force
  show ?thesis
  proof (cases a)
    case (Inl e)
    with t show ?thesis by (auto simp: execute_tool_def read_time_eq)
  next
    case (Inr ok)
    from t Inr have "success ok \<and> toolName ok = req_toolName request
        \<and> (\<exists>payload. result ok = Some payload) \<and> error ok = None \<and> (\<exists>t. timestamp ok = loop_time w t)"
      by (auto simp: execute_tool_try_def read_time_eq split: prod.splits sum.splits)
    with t Inr show ?thesis by (simp add: execute_tool_def)
  qed
qed

theorem execute_tool_total_witness:
  "toolName (fst (execute_tool flaky_world review_request initial_state)) = ''pythonCodeReview''
   \<and> \<not> success (fst (execute_tool flaky_world review_request initial_state))
   \<and> result (fst (execute_tool flaky_world review_request initial_state)) = None
   \<and> error (fst (execute_tool flaky_world review_request initial_state))
       = Some ''authentication failed''"
proof -
  have "fst (execute_tool_try flaky_world review_request initial_state)
          = Inl (Exception ''RuntimeError'' ''authentication failed'')"
    by (simp add: execute_tool_try_def get_zai_client_def flaky_world_def sample_world_def
        initial_state_def)
  with execute_tool_total[of flaky_world review_request initial_state] show ?thesis
    by (simp add: Let_def review_request_def)
qed

text \<open>
  C7, as the code has it. The tool is \<^verbatim>\<open>pythonCodeReview\<close> and the input is
  \<^verbatim>\<open>{code: "x=1", language: "python"}\<close>. When the accessor hands out a client and the
  SDK answers the review prompt with a response that has a content, the response of
  \<^verbatim>\<open>execute_tool\<close> is a success whose payload has that content as review, language
  \<^verbatim>\<open>python\<close> and codeLength 3, the length of \<^verbatim>\<open>x=1\<close>.
\<close>

theorem code_review_example:
  assumes "fst (get_zai_client w s) = Inr c"
    and "simple_chat w
           (Simple_chat c
              (PStr (review_prompt w (PStr ''x=1'') (PStr ''python'') (PStr ''comprehensive'') (PStr [])))
              (PStr ''0727-360B-API'') (PBool True) (PFloat 2 (- 1)) None None) = Inr response"
    and "getattr response ''content'' = Inr review"
  shows "let r = fst (execute_tool w review_request s) in
           success r \<and> toolName r = ''pythonCodeReview''
           \<and> (\<exists>payload. result r = Some payload
                 \<and> field payload ''review'' = Some review
                 \<and> field payload ''language'' = Some (PStr ''python'')
                 \<and> field payload ''codeLength'' = Some (PInt 3))"
proof -
  obtain s1 where g: "get_zai_client w s = (Inr c, s1)"
    using assms(1) by (cases "get_zai_client w s") simp
  let ?i = "input review_request"
  have i: "?i = [(''code'', PStr ''x=1''), (''language'', PStr ''python'')]"
    and n: "req_toolName review_request = ''pythonCodeReview''"
    by (simp_all add: review_request_def)
  have tc: "tool_call w c ''pythonCodeReview'' ?i =
        Simple_chat c
          (PStr (review_prompt w (PStr ''x=1'') (PStr ''python'') (PStr ''comprehensive'') (PStr [])))
          (PStr ''0727-360B-API'') (PBool True) (PFloat 2 (- 1)) None None"
    by (simp add: tool_call_def i dict_get_def)
  have len: "py_len (dict_get ?i ''code'' (PStr [])) = Inr (PInt 3)"
    by (simp add: i dict_get_def py_len_def)
  from tool_result_review[of w c ?i response review "PInt 3" s1] assms(2,3) tc len
  have "fst (tool_result w c (req_toolName review_request) ?i s1) =
         Inr (PDict [(''success'', PBool True), (''review'', review),
                     (''thinking'', getattr_default response ''thinking'' PNone),
                     (''language'', dict_get ?i ''language'' (PStr ''typescript'')),
                     (''reviewType'', dict_get ?i ''reviewType'' (PStr ''comprehensive'')),
                     (''model'', PStr ''0727-360B-API''),
                     (''codeLength'', PInt 3),
                     (''timestamp'', loop_time w (time_reads s1))])"
    by (simp add: n)
  from execute_tool_success[OF g this] show ?thesis
    by (simp add: Let_def n field_def i dict_get_def)
qed

theorem code_review_example_witness:
  "success (fst (execute_tool sample_world review_request initial_state))
   \<and> (\<exists>payload. result (fst (execute_tool sample_world review_request initial_state)) = Some payload
         \<and> field payload ''review'' = Some (PStr ''ok'')
         \<and> field payload ''codeLength'' = Some (PInt 3))"
proof -
  have g: "fst (get_zai_client sample_world initial_state) = Inr (Client 0)"
    by (simp add: get_zai_client_def sample_world_def initial_state_def)
  have c: "simple_chat sample_world x = Inr sample_response" for x
    by (simp add: sample_world_def)
  have a: "getattr sample_response ''content'' = Inr (PStr ''ok'')"
    by (simp add: getattr_def sample_response_def)
  from code_review_example[OF g c a] show ?thesis
    unfolding Let_def by blast
qed

text \<open>
  C7 as the claim words it: in \<open>sample_world\<close> the response to the example request is
  the one below, with codeLength 3 and not 4.
\<close>

theorem code_review_example_counterexample:
  "fst (execute_tool sample_world review_request initial_state) =
     \<lparr>success = True, toolName = ''pythonCodeReview'',
      result = Some (PDict [(''success'', PBool True), (''review'', PStr ''ok''),
                            (''thinking'', PNone), (''language'', PStr ''python''),
                            (''reviewType'', PStr ''comprehensive''),
                            (''model'', PStr ''0727-360B-API''),
                            (''codeLength'', PInt 3),
                            (''timestamp'', PFloat 0 0)]),
      error = None, timestamp = PFloat 1 0\<rparr>"
proof -
  have g: "get_zai_client sample_world initial_state =
           (Inr (Client 0), \<lparr>zai_client = Some (Client 0), ctor_calls = 1, log = [], time_reads = 0\<rparr>)"
    by (simp add: get_zai_client_def sample_world_def initial_state_def)
  have c: "simple_chat sample_world x = Inr sample_response" for x
    by (simp add: sample_world_def)
  have t: "loop_time sample_world k = PFloat (int k) 0" for k
    by (simp add: sample_world_def)
  show ?thesis
    unfolding execute_tool_def execute_tool_try_def g
    by (simp add: tool_result_def review_request_def Let_def c t read_time_eq log_call_def
        dict_get_def getattr_def getattr_default_def sample_response_def py_len_def)
qed

text \<open>
  C8. The tool name is none of the three that \<^verbatim>\<open>execute_tool\<close> knows, and the accessor
  hands out a client. Then the one call on the SDK is a \<^verbatim>\<open>simple_chat\<close> whose message is
  the assistance prompt with the tool name and \<^verbatim>\<open>json.dumps(input, indent=2)\<close> in it, at
  the model \<^verbatim>\<open>glm-4.5v\<close>, thinking off, temperature 0.7 and nothing else passed.
  Whenever the SDK answers it with a response that has a content, the response of
  \<^verbatim>\<open>execute_tool\<close> is a success whose payload has that content and the model. The model
  is the default model of the chat handlers, and the temperature is higher than that of
  every call the branches for the three known names make.
\<close>

theorem unknown_tool_generic_assistance:
  assumes "req_toolName request \<notin>
             set [''pythonAnalyzeRepository'', ''analyzeRepositoryStructure'', ''pythonCodeReview'']"
    and "fst (get_zai_client w s) = Inr c"
  shows
   "let c1 = Simple_chat c
               (PStr (''Help with this development task: Execute '' @ req_toolName request
                        @ '' with parameters: '' @ json_dumps w (Some 2) (PDict (input request))
                        @ ''. Please provide practical assistance and guidance.''))
               (PStr ''glm-4.5v'') (PBool False) (PFloat 7 (- 1)) None None;
        r = fst (execute_tool w request s)
    in calls_made s (snd (execute_tool w request s)) = [c1]
     \<and> (\<forall>response cnt.
           simple_chat w c1 = Inr response \<and> getattr response ''content'' = Inr cnt \<longrightarrow>
             success r \<and> toolName r = req_toolName request
             \<and> (\<exists>payload. result r = Some payload
                   \<and> field payload ''content'' = Some cnt
                   \<and> field payload ''model'' = Some (PStr ''glm-4.5v'')))
     \<and> p_model (extract_config []) = PStr ''glm-4.5v''
     \<and> (\<forall>n \<in> set [''pythonAnalyzeRepository'', ''analyzeRepositoryStructure'', ''pythonCodeReview''].
          \<forall>i s0. \<forall>x \<in> set (calls_made s0 (snd (tool_result w c n i s0))).
             decimal_less (call_temperature x) (PFloat 7 (- 1)))"
proof -
  let ?c1 = "Simple_chat c
               (PStr (''Help with this development task: Execute '' @ req_toolName request
                        @ '' with parameters: '' @ json_dumps w (Some 2) (PDict (input request))
                        @ ''. Please provide practical assistance and guidance.''))
               (PStr ''glm-4.5v'') (PBool False) (PFloat 7 (- 1)) None None"
  let ?r = "fst (execute_tool w request s)"
  have tc: "tool_call w c (req_toolName request) (input request) = ?c1"
    using assms(1) by (simp add: tool_call_def generic_prompt_def tool_description_def)
  have a: "calls_made s (snd (execute_tool w request s)) = [?c1]"
    using execute_tool_log[OF assms(2), of request] tc by simp
  obtain s1 where g: "get_zai_client w s = (Inr c, s1)"
    using assms(2) by (cases "get_zai_client w s") simp
  have b: "success ?r \<and> toolName ?r = req_toolName request
             \<and> (\<exists>payload. result ?r = Some payload
                   \<and> field payload ''content'' = Some cnt
                   \<and> field payload ''model'' = Some (PStr ''glm-4.5v''))"
    if h: "simple_chat w ?c1 = Inr response \<and> getattr response ''content'' = Inr cnt"
    for response cnt
  proof -
    from h tc have "simple_chat w (tool_call w c (req_toolName request) (input request)) = Inr response"
      and "getattr response ''content'' = Inr cnt" by simp_all
    from tool_result_generic[OF assms(1) this, of s1]
    have "fst (tool_result w c (req_toolName request) (input request) s1) =
         Inr (PDict [(''success'', PBool True), (''content'', cnt), (''model'', PStr ''glm-4.5v''),
                     (''timestamp'', loop_time w (time_reads s1))])" .
    from execute_tool_success[OF g this] show ?thesis by (simp add: field_def)
  qed
  have d: "p_model (extract_config []) = PStr ''glm-4.5v''"
    by (simp add: extract_config_def dict_get_def)
  have e: "decimal_less (call_temperature x) (PFloat 7 (- 1))"
    if "n \<in> set [''pythonAnalyzeRepository'', ''analyzeRepositoryStructure'', ''pythonCodeReview'']"
      and "x \<in> set (calls_made s0 (snd (tool_result w c n i s0)))" for n i s0 x
    using that by (auto simp: calls_made_def tool_result_log tool_call_def decimal_less_def)
  from a b d e show ?thesis unfolding Let_def by blast
qed

theorem unknown_tool_generic_assistance_witness:
  "calls_made initial_state (snd (execute_tool sample_world unknown_tool_request initial_state)) =
     [Simple_chat (Client 0)
        (PStr (''Help with this development task: Execute formatCode with parameters: {}''
                 @ ''. Please provide practical assistance and guidance.''))
        (PStr ''glm-4.5v'') (PBool False) (PFloat 7 (- 1)) None None]
   \<and> success (fst (execute_tool sample_world unknown_tool_request initial_state))
   \<and> decimal_less
        (call_temperature (hd (calls_made initial_state
           (snd (tool_result sample_world (Client 0) ''pythonCodeReview'' [] initial_state)))))
        (PFloat 7 (- 1))"
proof -
  have n: "req_toolName unknown_tool_request \<notin>
             set [''pythonAnalyzeRepository'', ''analyzeRepositoryStructure'', ''pythonCodeReview'']"
    by (simp add: unknown_tool_request_def)
  have g: "fst (get_zai_client sample_world initial_state) = Inr (Client 0)"
    by (simp add: get_zai_client_def sample_world_def initial_state_def)
  have c: "simple_chat sample_world x = Inr sample_response" for x
    by (simp add: sample_world_def)
  have a: "getattr sample_response ''content'' = Inr (PStr ''ok'')"
    by (simp add: getattr_def sample_response_def)
  have j: "json_dumps sample_world (Some 2) (PDict (input unknown_tool_request)) = ''{}''"
    by (simp add: sample_world_def unknown_tool_request_def)
  have x: "hd (calls_made initial_state
             (snd (tool_result sample_world (Client 0) ''pythonCodeReview'' [] initial_state)))
           \<in> set (calls_made initial_state
             (snd (tool_result sample_world (Client 0) ''pythonCodeReview'' [] initial_state)))"
    by (simp add: calls_made_def tool_result_log)
  note t = unknown_tool_generic_assistance[OF n g, unfolded Let_def]
  from t have 1: "calls_made initial_state
           (snd (execute_tool sample_world unknown_tool_request initial_state)) =
     [Simple_chat (Client 0)
        (PStr (''Help with this development task: Execute formatCode with parameters: {}''
                 @ ''. Please provide practical assistance and guidance.''))
        (PStr ''glm-4.5v'') (PBool False) (PFloat 7 (- 1)) None None]"
    unfolding j by (simp add: unknown_tool_request_def)
  from t c a have 2: "success (fst (execute_tool sample_world unknown_tool_request initial_state))"
    by blast
  from t x have 3: "decimal_less
        (call_temperature (hd (calls_made initial_state
           (snd (tool_result sample_world (Client 0) ''pythonCodeReview'' [] initial_state)))))
        (PFloat 7 (- 1))"
    by simp
  from 1 2 3 show ?thesis by simp
qed

section \<open>Streaming chat: how the event sequence ends\<close>

lemma deltas_Suc:
  "deltas it (Suc n) = deltas it n @ (case it n of Yield chunk \<Rightarrow> [delta_event chunk] | _ \<Rightarrow> [])"
  by (simp add: deltas_def)

lemma consume_prefix:
  "(\<forall>j<n. is_yield (it j)) \<Longrightarrow> consume it 0 [] = consume it n (deltas it n)"
proof (induction n)
  case 0
  show ?case by (simp add: deltas_def)
next
  case (Suc n)
  then have ih: "consume it 0 [] = consume it n (deltas it n)" by simp
  from Suc.prems have "is_yield (it n)" by simp
  then obtain chunk where c: "it n = Yield chunk" by (cases "it n") simp_all
  have "consume it n (deltas it n) = consume it (Suc n) (deltas it n @ [delta_event chunk])"
    by (subst consume.simps) (simp add: c)
  with ih c show ?case by (simp add: deltas_Suc)
qed

lemma consume_ends:
  assumes "ends_at it n"
  shows "consume it 0 [] =
         Some (deltas it n @ (case it n of Raise e \<Rightarrow> [error_event e] | _ \<Rightarrow> []))"
proof -
  from assms have y: "\<forall>j<n. is_yield (it j)" and e: "\<not> is_yield (it n)"
    by (simp_all add: ends_at_def)
  have "consume it n (deltas it n) =
        Some (deltas it n @ (case it n of Raise e \<Rightarrow> [error_event e] | _ \<Rightarrow> []))"
    using e by (subst consume.simps) (cases "it n"; simp)
  with consume_prefix[OF y] show ?thesis by simp
qed

lemma consume_Some_stops:
  "consume it k acc = Some evs \<Longrightarrow> \<exists>n. \<not> is_yield (it (k + n))"
proof (induction rule: consume.raw_induct[rotated 1, consumes 1])
  case (1 loop it k acc evs)
  show ?case
  proof (cases "it k")
    case (Yield chunk)
    with "1"(2) have "loop it (Suc k) (acc @ [delta_event chunk]) = Some evs" by simp
    from "1"(1)[OF this] obtain n where "\<not> is_yield (it (Suc k + n))" by blast
    then have "\<not> is_yield (it (k + Suc n))" by simp
    then show ?thesis by blast
  next
    case Stop
    then have "\<not> is_yield (it (k + 0))" by simp
    then show ?thesis by blast
  next
    case (Raise e)
    then have "\<not> is_yield (it (k + 0))" by simp
    then show ?thesis by blast
  qed
qed

lemma consume_Some_ends:
  assumes "consume it 0 [] = Some evs"
  shows "\<exists>n. ends_at it n"
proof -
  from consume_Some_stops[OF assms] obtain m where m: "\<not> is_yield (it m)" by auto
  define n where "n = (LEAST m. \<not> is_yield (it m))"
  from m have "\<not> is_yield (it n)" unfolding n_def by (rule LeastI)
  moreover have "is_yield (it j)" if "j < n" for j
    using not_less_Least[of j "\<lambda>m. \<not> is_yield (it m)"] that unfolding n_def by blast
  ultimately show ?thesis unfolding ends_at_def by blast
qed

lemma delta_not_error [simp]: "\<not> is_error_event (delta_event chunk)"
  by (simp add: is_error_event_def delta_event_def field_def)

lemma error_is_error [simp]: "is_error_event (error_event e)"
  by (simp add: is_error_event_def error_event_def field_def)

lemma deltas_not_error: "ev \<in> set (deltas it n) \<Longrightarrow> \<not> is_error_event ev"
  by (auto simp: deltas_def split: pull.splits)

lemma filter_deltas [simp]: "filter is_error_event (deltas it n) = []"
  by (auto simp: filter_empty_conv dest: deltas_not_error)


lemma generate_stream_fst:
  "fst (generate_stream w c msgs p s) =
     (case fst (open_stream w c msgs p s) of
        Inl e \<Rightarrow> Some [error_event e]
      | Inr it \<Rightarrow> consume it 0 [])"
  by (cases "open_stream w c msgs p s") (simp add: generate_stream_def split: sum.splits)

text \<open>
  C5. The events of a streaming response. When opening the stream raises (in creating
  the session, in reading its id, or in the call of \<^verbatim>\<open>stream_completion\<close>), the stream
  is the error event alone. When the SDK's iterator ends at its \<open>n\<close>-th pull, the stream
  is finite: it is the delta events of the \<open>n\<close> chunks, none of them an error event,
  followed by nothing when the iterator stopped and by the one error event when it
  raised. And every finite stream has at most one error event, which is then its last
  event.
\<close>

theorem stream_ends_once:
  "(\<forall>e. fst (open_stream w c msgs p s) = Inl e \<longrightarrow>
        fst (generate_stream w c msgs p s) = Some [error_event e])
   \<and> (\<forall>it n. fst (open_stream w c msgs p s) = Inr it \<and> ends_at it n \<longrightarrow>
        fst (generate_stream w c msgs p s) =
          Some (deltas it n @ (case it n of Raise e \<Rightarrow> [error_event e] | _ \<Rightarrow> []))
        \<and> (\<forall>ev \<in> set (deltas it n). \<not> is_error_event ev))
   \<and> (\<forall>evs. fst (generate_stream w c msgs p s) = Some evs \<longrightarrow>
        length (filter is_error_event evs) \<le> 1
        \<and> (\<forall>ev \<in> set (butlast evs). \<not> is_error_event ev))"
proof -
  let ?g = "fst (generate_stream w c msgs p s)"
  have a: "?g = Some [error_event e]" if "fst (open_stream w c msgs p s) = Inl e" for e
    using that by (simp add: generate_stream_fst)
  have b: "?g = Some (deltas it n @ (case it n of Raise e \<Rightarrow> [error_event e] | _ \<Rightarrow> []))
           \<and> (\<forall>ev \<in> set (deltas it n). \<not> is_error_event ev)"
    if "fst (open_stream w c msgs p s) = Inr it \<and> ends_at it n" for it n
    using that consume_ends[of it n] by (simp add: generate_stream_fst deltas_not_error)
  have c: "length (filter is_error_event evs) \<le> 1
           \<and> (\<forall>ev \<in> set (butlast evs). \<not> is_error_event ev)"
    if g: "?g = Some evs" for evs
  proof (cases "fst (open_stream w c msgs p s)")
    case (Inl e)
    with a[OF Inl] g show ?thesis by simp
  next
    case (Inr it)
    with g have "consume it 0 [] = Some evs" by (simp add: generate_stream_fst)
    from consume_Some_ends[OF this] obtain n where n: "ends_at it n" by blast
    with b Inr g have "evs = deltas it n @ (case it n of Raise e \<Rightarrow> [error_event e] | _ \<Rightarrow> [])"
      by simp
    then show ?thesis
      by (cases "it n") (auto simp: butlast_append dest: deltas_not_error in_set_butlastD)
  qed
  from a b c show ?thesis by blast
qed


theorem stream_ends_once_witness:
  "fst (generate_stream sample_world (Client 0) [\<lparr>m_role = ''user'', m_content = ''hi''\<rparr>]
          (extract_config []) initial_state) =
     Some [PDict [(''delta'', PStr ''Hel''), (''phase'', PStr ''answer'')],
           PDict [(''delta'', PStr ''lo''), (''phase'', PStr ''answer'')]]
   \<and> fst (generate_stream broken_stream_world (Client 0) [\<lparr>m_role = ''user'', m_content = ''hi''\<rparr>]
          (extract_config []) initial_state) =
     Some [PDict [(''delta'', PStr ''Hel''), (''phase'', PStr ''answer'')],
           PDict [(''error'', PStr ''connection lost''), (''phase'', PStr ''error'')]]"
proof -
  let ?ms = "[\<lparr>m_role = ''user'', m_content = ''hi''\<rparr>]"
  let ?it1 = "\<lambda>k::nat. if k = 0 then Yield (sample_chunk ''Hel'')
                       else if k = 1 then Yield (sample_chunk ''lo'') else Stop"
  let ?it2 = "\<lambda>k::nat. if k = 0 then Yield (sample_chunk ''Hel'')
                       else Raise (Exception ''ConnectionError'' ''connection lost'')"
  have o1: "fst (open_stream sample_world (Client 0) ?ms (extract_config []) initial_state)
              = Inr ?it1"
    by (simp add: open_stream_def sample_world_def Let_def method_get_def)
  have o2: "fst (open_stream broken_stream_world (Client 0) ?ms (extract_config []) initial_state)
              = Inr ?it2"
    by (simp add: open_stream_def broken_stream_world_def sample_world_def Let_def method_get_def)
  have e1: "ends_at ?it1 2"
    by (simp add: ends_at_def less_Suc_eq numeral_2_eq_2)
  have e2: "ends_at ?it2 1"
    by (simp add: ends_at_def)
  have d: "delta_event (sample_chunk x) = PDict [(''delta'', PStr x), (''phase'', PStr ''answer'')]"
    for x by (simp add: delta_event_def sample_chunk_def hasattr_def dict_get_def)
  have d1: "deltas ?it1 2 = [PDict [(''delta'', PStr ''Hel''), (''phase'', PStr ''answer'')],
                            PDict [(''delta'', PStr ''lo''), (''phase'', PStr ''answer'')]]"
    by (simp add: deltas_def d numeral_2_eq_2)
  have d2: "deltas ?it2 1 = [PDict [(''delta'', PStr ''Hel''), (''phase'', PStr ''answer'')]]"
    by (simp add: deltas_def d)
  from stream_ends_once[of sample_world "Client 0" ?ms "extract_config []" initial_state] o1 e1
  have 1: "fst (generate_stream sample_world (Client 0) ?ms (extract_config []) initial_state) =
          Some (deltas ?it1 2 @ (case ?it1 2 of Raise e \<Rightarrow> [error_event e] | _ \<Rightarrow> []))"
    by blast
  from stream_ends_once[of broken_stream_world "Client 0" ?ms "extract_config []" initial_state]
    o2 e2
  have 2: "fst (generate_stream broken_stream_world (Client 0) ?ms (extract_config []) initial_state) =
          Some (deltas ?it2 1 @ (case ?it2 1 of Raise e \<Rightarrow> [error_event e] | _ \<Rightarrow> []))"
    by blast
  from 1 2 show ?thesis
    unfolding d1 d2 by (simp add: error_event_def)
qed

end
